theory Spec2Isabelle
  imports Complex_Main "HOL-Library.Log_Nat"
begin

section \<open>Data model of \<open>src/App.tsx\<close>\<close>

text \<open>
  The component \<open>App\<close> keeps a form (\<open>formData\<close>), the response of the external
  distribution service (\<open>results\<close>) and a few view flags in React state, and derives two
  values from them with \<open>useMemo\<close>: \<open>netEstateCalculations\<close> and \<open>individualHeirs\<close>.

  JavaScript numbers that hold money are modelled by the rational numbers they denote
  (\<open>rat\<close>), head counts as integers (\<open>int\<close>), and strings as lists of UTF-16 code
  units (\<open>nat\<close> values below 65536), which is what \<open>String.prototype.includes\<close>
  compares. The division that splits a share among the members of a class rounds its
  result to a double; it is a parameter (\<open>numDiv\<close>) of the functions that divide, and
  \<open>divideDouble\<close> below is the division of IEEE doubles.
  The declarations of \<open>./types\<close> and \<open>./constants\<close> are not part of the source at hand;
  the records below carry exactly the fields that \<open>App.tsx\<close> reads or initialises.
\<close>

type_synonym jsstring = "nat list"

datatype Language = ar | en

text \<open>Modelled from the spec: the enumeration \<open>DeceasedGender\<close> of \<open>./types\<close>.
  \<open>App.tsx\<close> names only its member \<open>MALE\<close>; the spec speaks of the deceased's sex, so
  there is a second member. No function below inspects the field.\<close>

datatype DeceasedGender = MALE | FEMALE

text \<open>Modelled from the spec: the field types of \<open>HeirsData\<close>, which \<open>./types\<close>
  declares. The fields are those of the initial \<open>formData\<close> (lines 20 to 36); the spec
  gives decimals for the money fields and integers for the head counts.\<close>

record HeirsData =
  deceasedGender :: DeceasedGender
  estateValue :: rat
  currency :: jsstring
  debts :: rat
  willAmount :: rat
  hasHusband :: bool
  wivesCount :: int
  sonsCount :: int
  daughtersCount :: int
  hasFather :: bool
  hasMother :: bool
  fullBrothersCount :: int
  fullSistersCount :: int
  paternalBrothersCount :: int
  paternalSistersCount :: int

text \<open>The object returned by the \<open>netEstateCalculations\<close> memo.\<close>

record NetEstate =
  estate :: rat
  debts :: rat
  will :: rat
  net :: rat
  isWillOverLimit :: bool

section \<open>The net estate calculation\<close>

text \<open>\<open>x || 0\<close> on a number: a falsy number (zero) is replaced by \<open>0\<close>.\<close>

definition orZero :: "rat \<Rightarrow> rat" where
  "orZero x = (if x = 0 then 0 else x)"

text \<open>Lines 45 to 59. \<open>Math.max(0, e)\<close> is \<open>max 0 e\<close>; the local \<open>maxWill\<close> is one third
  of the gross estate value and is used for the flag only.\<close>

definition netEstateCalculations :: "HeirsData \<Rightarrow> NetEstate" where
  "netEstateCalculations formData =
     (let estate = orZero (estateValue formData);
          debts = orZero (HeirsData.debts formData);
          initialRemainder = max 0 (estate - debts);
          maxWill = estate / 3;
          actualWill = orZero (willAmount formData);
          net = max 0 (initialRemainder - actualWill)
      in \<lparr> estate = estate,
           debts = debts,
           will = actualWill,
           net = net,
           isWillOverLimit = (actualWill > maxWill \<and> estate > 0) \<rparr>)"

text \<open>A form that holds the three money fields and no survivors.\<close>

definition estateForm :: "rat \<Rightarrow> rat \<Rightarrow> rat \<Rightarrow> HeirsData" where
  "estateForm e d w =
     \<lparr> deceasedGender = MALE, estateValue = e, currency = [83, 65, 82],
       debts = d, willAmount = w, hasHusband = False, wivesCount = 0,
       sonsCount = 0, daughtersCount = 0, hasFather = False, hasMother = False,
       fullBrothersCount = 0, fullSistersCount = 0,
       paternalBrothersCount = 0, paternalSistersCount = 0 \<rparr>"

text \<open>The local \<open>initialRemainder\<close> of \<open>netEstateCalculations\<close>, named so that the
  properties below can refer to the debts-reduced estate.\<close>

definition initialRemainder :: "HeirsData \<Rightarrow> rat" where
  "initialRemainder formData =
     max 0 (orZero (estateValue formData) - orZero (HeirsData.debts formData))"

section \<open>The response of the distribution service\<close>

text \<open>\<open>CalculationResponse\<close> is declared in \<open>./types\<close>; \<open>App.tsx\<close> reads its field
  \<open>shares\<close> and four fields of every element of it, and the records hold these.\<close>

record Share =
  heir :: jsstring
  amount :: rat
  sharePercentage :: rat
  shareFraction :: jsstring

record CalculationResponse =
  shares :: "Share list"

text \<open>One element of the list built by \<open>individualHeirs\<close>.\<close>

record HeirEntry =
  name :: jsstring
  amount :: rat
  percentage :: rat
  fraction :: jsstring

text \<open>The fields of \<open>TRANSLATIONS.individualHeirLabels[lang]\<close> that \<open>App.tsx\<close> reads. The
  table itself lives in \<open>./constants\<close> and is a parameter of \<open>individualHeirs\<close>.\<close>

record Labels =
  husband :: jsstring
  wife :: jsstring
  father :: jsstring
  mother :: jsstring
  son :: jsstring
  daughter :: jsstring
  brother :: jsstring
  sister :: jsstring

section \<open>Strings\<close>

text \<open>An ASCII literal as code units.\<close>

definition ascii :: "string \<Rightarrow> jsstring" where
  "ascii cs = map of_char cs"

text \<open>\<open>includes_js s k\<close> is \<open>s.includes(k)\<close>: \<open>k\<close> occurs in \<open>s\<close> as a contiguous run
  of code units; the empty string occurs in every string.\<close>

fun startsWith :: "jsstring \<Rightarrow> jsstring \<Rightarrow> bool" where
  "startsWith s [] = True"
| "startsWith [] (k # ks) = False"
| "startsWith (c # s) (k # ks) = (c = k \<and> startsWith s ks)"

fun includes_js :: "jsstring \<Rightarrow> jsstring \<Rightarrow> bool" where
  "includes_js [] k = (k = [])"
| "includes_js (c # s) k = (startsWith (c # s) k \<or> includes_js s k)"

text \<open>The decimal digits of a loop index, as the template literal \<open>`${i}`\<close> prints
  them.\<close>

fun decimal :: "nat \<Rightarrow> jsstring" where
  "decimal n = (if n < 10 then [48 + n] else decimal (n div 10) @ [48 + n mod 10])"

definition numberToString :: "int \<Rightarrow> jsstring" where
  "numberToString i = (if i < 0 then 45 # decimal (nat (- i)) else decimal (nat i))"

text \<open>\<open>String.prototype.toLowerCase\<close> is a parameter of \<open>getShare\<close> below. For concrete
  evaluations \<open>toLowerCaseAscii\<close> is used: it lowers \<open>A\<close> to \<open>Z\<close> and leaves every other
  code unit alone, which is what \<open>toLowerCase\<close> does on strings of ASCII and Arabic
  letters.\<close>

definition toLowerCaseAscii :: "jsstring \<Rightarrow> jsstring" where
  "toLowerCaseAscii s = map (\<lambda>c. if 65 \<le> c \<and> c \<le> 90 then c + 32 else c) s"

section \<open>Division of doubles\<close>

text \<open>The operator \<open>/\<close> on two JavaScript numbers gives the double nearest to the exact
  quotient, ties going to the even significand. \<open>divideDouble\<close> is that operator on the
  rationals that doubles denote, for a divisor other than zero and a quotient below
  \<open>2 ^ 1024\<close> in size (beyond these JavaScript answers \<open>NaN\<close> or an infinity).\<close>

definition pow2 :: "int \<Rightarrow> rat" where
  "pow2 e = (if 0 \<le> e then 2 ^ nat e else 1 / 2 ^ nat (- e))"

text \<open>For \<open>x > 0\<close>, the exponent \<open>e\<close> with \<open>2 ^ e \<le> x < 2 ^ (e + 1)\<close>. The bit lengths of
  numerator and denominator fix it up to one.\<close>

definition binaryExponent :: "rat \<Rightarrow> int" where
  "binaryExponent x =
     (let d = bitlen (fst (quotient_of x)) - bitlen (snd (quotient_of x))
      in if pow2 d \<le> x then d else d - 1)"

definition roundHalfEven :: "rat \<Rightarrow> int" where
  "roundHalfEven q =
     (let f = \<lfloor>q\<rfloor>; r = q - of_int f
      in if r < 1 / 2 then f else if 1 / 2 < r then f + 1 else if even f then f else f + 1)"

text \<open>A double has 53 significant bits, and no bit below \<open>2 ^ -1074\<close>.\<close>

definition roundDouble :: "rat \<Rightarrow> rat" where
  "roundDouble x =
     (if x = 0 then 0
      else (let m = \<bar>x\<bar>;
                u = max (binaryExponent m - 52) (- 1074);
                q = roundHalfEven (m / pow2 u)
            in sgn x * of_int q * pow2 u))"

definition divideDouble :: "rat \<Rightarrow> rat \<Rightarrow> rat" where
  "divideDouble x y = roundDouble (x / y)"

section \<open>Matching a share to a heir class\<close>

text \<open>Lines 65 and 66: the first share whose lower-cased heir name contains one of the
  lower-cased keywords.\<close>

definition getShare ::
  "(jsstring \<Rightarrow> jsstring) \<Rightarrow> CalculationResponse \<Rightarrow> jsstring list \<Rightarrow> Share option" where
  "getShare toLowerCase results keywords =
     find (\<lambda>s. list_ex (\<lambda>k. includes_js (toLowerCase (heir s)) (toLowerCase k)) keywords)
       (shares results)"

text \<open>The keyword lists of the eight calls, in source order. The Arabic keywords are
  written as their code units.\<close>

definition husbandKeywords :: "jsstring list" where
  "husbandKeywords = [ascii ''husband'', [0x632, 0x648, 0x62C]]"

definition wivesKeywords :: "jsstring list" where
  "wivesKeywords = [ascii ''wife'', ascii ''wives'',
     [0x632, 0x648, 0x62C, 0x629], [0x632, 0x648, 0x62C, 0x627, 0x62A]]"

definition fatherKeywords :: "jsstring list" where
  "fatherKeywords = [ascii ''father'', [0x623, 0x628]]"

definition motherKeywords :: "jsstring list" where
  "motherKeywords = [ascii ''mother'', [0x623, 0x645]]"

definition sonsKeywords :: "jsstring list" where
  "sonsKeywords = [ascii ''son'', ascii ''sons'',
     [0x627, 0x628, 0x646], [0x623, 0x628, 0x646, 0x627, 0x621]]"

definition daughtersKeywords :: "jsstring list" where
  "daughtersKeywords = [ascii ''daughter'', ascii ''daughters'',
     [0x628, 0x646, 0x62A], [0x628, 0x646, 0x627, 0x62A], [0x627, 0x628, 0x646, 0x629]]"

definition fullBrothersKeywords :: "jsstring list" where
  "fullBrothersKeywords = [ascii ''full brother'',
     [0x623, 0x62E, 0x20, 0x634, 0x642, 0x64A, 0x642]]"

definition fullSistersKeywords :: "jsstring list" where
  "fullSistersKeywords = [ascii ''full sister'',
     [0x623, 0x62E, 0x62A, 0x20, 0x634, 0x642, 0x64A, 0x642, 0x629]]"

section \<open>The list of individual heirs\<close>

text \<open>The five \<open>for\<close> loops of \<open>individualHeirs\<close> have one shape: for \<open>i\<close> from \<open>1\<close> up to
  the head count, push an entry whose name depends on \<open>i\<close> and whose other fields do
  not. \<open>pushLoop\<close> is that loop, started at \<open>i\<close>.\<close>

function pushLoop ::
  "(int \<Rightarrow> jsstring) \<Rightarrow> rat \<Rightarrow> rat \<Rightarrow> jsstring \<Rightarrow> int \<Rightarrow> int \<Rightarrow> HeirEntry list \<Rightarrow> HeirEntry list"
  where
  "pushLoop entryName individualAmount individualPerc shareFrac i n list =
     (if i \<le> n
      then pushLoop entryName individualAmount individualPerc shareFrac (i + 1) n
             (list @ [\<lparr> name = entryName i, amount = individualAmount,
                        percentage = individualPerc, fraction = shareFrac \<rparr>])
      else list)"
  by pat_completeness auto
termination
  by (relation "measure (\<lambda>(entryName, a, p, f, i, n, list). nat (n + 1 - i))") auto

declare pushLoop.simps [simp del]
declare decimal.simps [simp del]

text \<open>The template literal \<open>`${label} ${i}`\<close>.\<close>

definition numbered :: "jsstring \<Rightarrow> int \<Rightarrow> jsstring" where
  "numbered label i = label @ [32] @ numberToString i"

text \<open>Lines 67 to 70.\<close>

definition husbandBlock ::
  "(jsstring \<Rightarrow> jsstring) \<Rightarrow> Labels \<Rightarrow> CalculationResponse \<Rightarrow> HeirsData
     \<Rightarrow> HeirEntry list \<Rightarrow> HeirEntry list" where
  "husbandBlock toLowerCase labels results formData list =
     (if hasHusband formData
      then (case getShare toLowerCase results husbandKeywords of
              Some s \<Rightarrow> list @ [\<lparr> name = husband labels, amount = Share.amount s,
                                  percentage = sharePercentage s, fraction = shareFraction s \<rparr>]
            | None \<Rightarrow> list)
      else list)"

text \<open>Lines 71 to 85.\<close>

definition wivesBlock ::
  "(jsstring \<Rightarrow> jsstring) \<Rightarrow> (rat \<Rightarrow> rat \<Rightarrow> rat) \<Rightarrow> Labels \<Rightarrow> CalculationResponse \<Rightarrow> HeirsData
     \<Rightarrow> HeirEntry list \<Rightarrow> HeirEntry list" where
  "wivesBlock toLowerCase numDiv labels results formData list =
     (if wivesCount formData > 0
      then (case getShare toLowerCase results wivesKeywords of
              Some s \<Rightarrow>
                (let individualAmount = numDiv (Share.amount s) (of_int (wivesCount formData));
                     individualPerc = numDiv (sharePercentage s) (of_int (wivesCount formData))
                 in pushLoop
                      (\<lambda>i. if wivesCount formData > 1 then numbered (wife labels) i
                           else wife labels)
                      individualAmount individualPerc (shareFraction s)
                      1 (wivesCount formData) list)
            | None \<Rightarrow> list)
      else list)"

text \<open>Lines 86 to 89.\<close>

definition fatherBlock ::
  "(jsstring \<Rightarrow> jsstring) \<Rightarrow> Labels \<Rightarrow> CalculationResponse \<Rightarrow> HeirsData
     \<Rightarrow> HeirEntry list \<Rightarrow> HeirEntry list" where
  "fatherBlock toLowerCase labels results formData list =
     (if hasFather formData
      then (case getShare toLowerCase results fatherKeywords of
              Some s \<Rightarrow> list @ [\<lparr> name = father labels, amount = Share.amount s,
                                  percentage = sharePercentage s, fraction = shareFraction s \<rparr>]
            | None \<Rightarrow> list)
      else list)"

text \<open>Lines 90 to 93.\<close>

definition motherBlock ::
  "(jsstring \<Rightarrow> jsstring) \<Rightarrow> Labels \<Rightarrow> CalculationResponse \<Rightarrow> HeirsData
     \<Rightarrow> HeirEntry list \<Rightarrow> HeirEntry list" where
  "motherBlock toLowerCase labels results formData list =
     (if hasMother formData
      then (case getShare toLowerCase results motherKeywords of
              Some s \<Rightarrow> list @ [\<lparr> name = mother labels, amount = Share.amount s,
                                  percentage = sharePercentage s, fraction = shareFraction s \<rparr>]
            | None \<Rightarrow> list)
      else list)"

text \<open>Lines 94 to 108.\<close>

definition sonsBlock ::
  "(jsstring \<Rightarrow> jsstring) \<Rightarrow> (rat \<Rightarrow> rat \<Rightarrow> rat) \<Rightarrow> Labels \<Rightarrow> CalculationResponse \<Rightarrow> HeirsData
     \<Rightarrow> HeirEntry list \<Rightarrow> HeirEntry list" where
  "sonsBlock toLowerCase numDiv labels results formData list =
     (if sonsCount formData > 0
      then (case getShare toLowerCase results sonsKeywords of
              Some s \<Rightarrow>
                (let individualAmount = numDiv (Share.amount s) (of_int (sonsCount formData));
                     individualPerc = numDiv (sharePercentage s) (of_int (sonsCount formData))
                 in pushLoop
                      (\<lambda>i. if sonsCount formData > 1 then numbered (son labels) i
                           else son labels)
                      individualAmount individualPerc (shareFraction s)
                      1 (sonsCount formData) list)
            | None \<Rightarrow> list)
      else list)"

text \<open>Lines 109 to 123.\<close>

definition daughtersBlock ::
  "(jsstring \<Rightarrow> jsstring) \<Rightarrow> (rat \<Rightarrow> rat \<Rightarrow> rat) \<Rightarrow> Labels \<Rightarrow> CalculationResponse \<Rightarrow> HeirsData
     \<Rightarrow> HeirEntry list \<Rightarrow> HeirEntry list" where
  "daughtersBlock toLowerCase numDiv labels results formData list =
     (if daughtersCount formData > 0
      then (case getShare toLowerCase results daughtersKeywords of
              Some s \<Rightarrow>
                (let individualAmount = numDiv (Share.amount s) (of_int (daughtersCount formData));
                     individualPerc = numDiv (sharePercentage s) (of_int (daughtersCount formData))
                 in pushLoop
                      (\<lambda>i. if daughtersCount formData > 1 then numbered (daughter labels) i
                           else daughter labels)
                      individualAmount individualPerc (shareFraction s)
                      1 (daughtersCount formData) list)
            | None \<Rightarrow> list)
      else list)"

text \<open>Lines 124 to 133. The entries of brothers and sisters are numbered also when
  there is only one.\<close>

definition fullBrothersBlock ::
  "(jsstring \<Rightarrow> jsstring) \<Rightarrow> (rat \<Rightarrow> rat \<Rightarrow> rat) \<Rightarrow> Labels \<Rightarrow> CalculationResponse \<Rightarrow> HeirsData
     \<Rightarrow> HeirEntry list \<Rightarrow> HeirEntry list" where
  "fullBrothersBlock toLowerCase numDiv labels results formData list =
     (if fullBrothersCount formData > 0
      then (case getShare toLowerCase results fullBrothersKeywords of
              Some s \<Rightarrow>
                (let individualAmount = numDiv (Share.amount s) (of_int (fullBrothersCount formData));
                     individualPerc = numDiv (sharePercentage s) (of_int (fullBrothersCount formData))
                 in pushLoop (\<lambda>i. numbered (brother labels) i)
                      individualAmount individualPerc (shareFraction s)
                      1 (fullBrothersCount formData) list)
            | None \<Rightarrow> list)
      else list)"

text \<open>Lines 134 to 143.\<close>

definition fullSistersBlock ::
  "(jsstring \<Rightarrow> jsstring) \<Rightarrow> (rat \<Rightarrow> rat \<Rightarrow> rat) \<Rightarrow> Labels \<Rightarrow> CalculationResponse \<Rightarrow> HeirsData
     \<Rightarrow> HeirEntry list \<Rightarrow> HeirEntry list" where
  "fullSistersBlock toLowerCase numDiv labels results formData list =
     (if fullSistersCount formData > 0
      then (case getShare toLowerCase results fullSistersKeywords of
              Some s \<Rightarrow>
                (let individualAmount = numDiv (Share.amount s) (of_int (fullSistersCount formData));
                     individualPerc = numDiv (sharePercentage s) (of_int (fullSistersCount formData))
                 in pushLoop (\<lambda>i. numbered (sister labels) i)
                      individualAmount individualPerc (shareFraction s)
                      1 (fullSistersCount formData) list)
            | None \<Rightarrow> list)
      else list)"

text \<open>Lines 61 to 145: no response, no list; otherwise the eight blocks push onto one
  list in this order. \<open>individualHeirLabels\<close> is the table of \<open>./constants\<close>, and
  \<open>numDiv\<close> is the operator \<open>/\<close> of lines 74, 75, 97, 98, 112, 113, 127, 128, 137
  and 138.\<close>

definition individualHeirs ::
  "(Language \<Rightarrow> Labels) \<Rightarrow> (jsstring \<Rightarrow> jsstring) \<Rightarrow> (rat \<Rightarrow> rat \<Rightarrow> rat)
     \<Rightarrow> CalculationResponse option \<Rightarrow> HeirsData \<Rightarrow> Language \<Rightarrow> HeirEntry list" where
  "individualHeirs individualHeirLabels toLowerCase numDiv results formData lang =
     (case results of
        None \<Rightarrow> []
      | Some res \<Rightarrow>
          (let labels = individualHeirLabels lang;
               list = [];
               list = husbandBlock toLowerCase labels res formData list;
               list = wivesBlock toLowerCase numDiv labels res formData list;
               list = fatherBlock toLowerCase labels res formData list;
               list = motherBlock toLowerCase labels res formData list;
               list = sonsBlock toLowerCase numDiv labels res formData list;
               list = daughtersBlock toLowerCase numDiv labels res formData list;
               list = fullBrothersBlock toLowerCase numDiv labels res formData list;
               list = fullSistersBlock toLowerCase numDiv labels res formData list
           in list))"

section \<open>Requesting the distribution\<close>

datatype View = ViewHome | ViewForm | ViewResults

text \<open>The React state of \<open>App\<close>.\<close>

record AppState =
  lang :: Language
  view :: View
  step :: int
  loading :: bool
  results :: "CalculationResponse option"
  formData :: HeirsData

definition alertMessage :: jsstring where
  "alertMessage = ascii ''Error calculating distribution. Please try again.''"

text \<open>Lines 147 to 159. \<open>calculateInheritance\<close> is imported from
  \<open>./services/geminiService\<close>; the outcome of awaiting it is a parameter: \<open>Inr\<close> the
  response, or \<open>Inl\<close> what the rejected promise carried. The result is the text of the
  alert raised, if any, and the state after the \<open>finally\<close> clause.\<close>

definition handleCalculate ::
  "(HeirsData \<Rightarrow> Language \<Rightarrow> 'e + CalculationResponse) \<Rightarrow> AppState
     \<Rightarrow> jsstring option \<times> AppState" where
  "handleCalculate calculateInheritance st =
     (let st = st\<lparr> loading := True \<rparr>
      in case calculateInheritance (formData st) (lang st) of
           Inr res \<Rightarrow>
             (None, st\<lparr> results := Some res, view := ViewResults, loading := False \<rparr>)
         | Inl error \<Rightarrow>
             (Some alertMessage, st\<lparr> loading := False \<rparr>))"

section \<open>Notions used in the statements\<close>

text \<open>The entry that one iteration of \<open>pushLoop\<close> pushes.\<close>

definition loopEntry :: "(int \<Rightarrow> jsstring) \<Rightarrow> rat \<Rightarrow> rat \<Rightarrow> jsstring \<Rightarrow> int \<Rightarrow> HeirEntry" where
  "loopEntry entryName individualAmount individualPerc shareFrac i =
     \<lparr> name = entryName i, amount = individualAmount,
       percentage = individualPerc, fraction = shareFrac \<rparr>"

text \<open>Equal shares within a group: there are \<open>n\<close> entries, each holds the same individual
  amount, and together they hold \<open>n\<close> times that amount.\<close>

definition equalShares :: "HeirEntry list \<Rightarrow> int \<Rightarrow> rat \<Rightarrow> bool" where
  "equalShares entries n individualAmount =
     (length entries = nat n
      \<and> list_all (\<lambda>e. HeirEntry.amount e = individualAmount) entries
      \<and> sum_list (map HeirEntry.amount entries) = of_int n * individualAmount)"

text \<open>The sum of a list of doubles as double addition computes it, from the left.\<close>

definition sumDouble :: "rat list \<Rightarrow> rat" where
  "sumDouble xs = foldl (\<lambda>acc x. roundDouble (acc + x)) 0 xs"

text \<open>The names an entry can be given from the eight labels: a label itself, or a group
  label followed by a space and a positive index.\<close>

definition entryNames :: "Labels \<Rightarrow> jsstring set" where
  "entryNames labels =
     {husband labels, wife labels, father labels, mother labels, son labels, daughter labels}
     \<union> {numbered l i | l i.
          l \<in> {wife labels, son labels, daughter labels, brother labels, sister labels}
          \<and> 1 \<le> i}"

text \<open>A share matches a keyword list when its lower-cased name contains one of the
  lower-cased keywords as a contiguous run of code units.\<close>

definition nameContainsKeyword ::
  "(jsstring \<Rightarrow> jsstring) \<Rightarrow> jsstring list \<Rightarrow> Share \<Rightarrow> bool" where
  "nameContainsKeyword toLowerCase keywords s =
     (\<exists>k \<in> set keywords. \<exists>before after.
        toLowerCase (heir s) = before @ toLowerCase k @ after)"

text \<open>\<open>s\<close> is the first share of the list that matches the keywords; no share of the
  list matches them.\<close>

definition firstSubstringMatch ::
  "(jsstring \<Rightarrow> jsstring) \<Rightarrow> jsstring list \<Rightarrow> Share list \<Rightarrow> Share \<Rightarrow> bool" where
  "firstSubstringMatch toLowerCase keywords shs s =
     (\<exists>earlier later. shs = earlier @ s # later
        \<and> nameContainsKeyword toLowerCase keywords s
        \<and> list_all (\<lambda>t. \<not> nameContainsKeyword toLowerCase keywords t) earlier)"

definition noSubstringMatch ::
  "(jsstring \<Rightarrow> jsstring) \<Rightarrow> jsstring list \<Rightarrow> Share list \<Rightarrow> bool" where
  "noSubstringMatch toLowerCase keywords shs =
     list_all (\<lambda>t. \<not> nameContainsKeyword toLowerCase keywords t) shs"

text \<open>The entry of a class of one that holds share \<open>s\<close> as it is, and the \<open>n\<close> entries of
  a group that hold share \<open>s\<close> divided by \<open>n\<close>.\<close>

definition singleEntry :: "jsstring \<Rightarrow> Share \<Rightarrow> HeirEntry" where
  "singleEntry label s =
     \<lparr> name = label, amount = Share.amount s,
       percentage = sharePercentage s, fraction = shareFraction s \<rparr>"

definition memberEntries ::
  "(rat \<Rightarrow> rat \<Rightarrow> rat) \<Rightarrow> (int \<Rightarrow> jsstring) \<Rightarrow> int \<Rightarrow> Share \<Rightarrow> HeirEntry list" where
  "memberEntries numDiv entryName n s =
     map (\<lambda>i. \<lparr> name = entryName i, amount = numDiv (Share.amount s) (of_int n),
                percentage = numDiv (sharePercentage s) (of_int n),
                fraction = shareFraction s \<rparr>)
       [1..n]"

section \<open>Sample inputs\<close>

text \<open>A label table in the two languages of the form.\<close>

definition sampleLabels :: "Language \<Rightarrow> Labels" where
  "sampleLabels l =
     (case l of
        en \<Rightarrow> \<lparr> husband = ascii ''Husband'', wife = ascii ''Wife'', father = ascii ''Father'',
                 mother = ascii ''Mother'', son = ascii ''Son'', daughter = ascii ''Daughter'',
                 brother = ascii ''Brother'', sister = ascii ''Sister'' \<rparr>
      | ar \<Rightarrow> \<lparr> husband = [0x627, 0x644, 0x632, 0x648, 0x62C],
                 wife = [0x627, 0x644, 0x632, 0x648, 0x62C, 0x629],
                 father = [0x627, 0x644, 0x623, 0x628],
                 mother = [0x627, 0x644, 0x623, 0x645],
                 son = [0x627, 0x644, 0x627, 0x628, 0x646],
                 daughter = [0x627, 0x644, 0x627, 0x628, 0x646, 0x629],
                 brother = [0x627, 0x644, 0x623, 0x62E],
                 sister = [0x627, 0x644, 0x623, 0x62E, 0x62A] \<rparr>)"

text \<open>A family with members in each of the five group classes, and a response with one
  English-named share per group.\<close>

definition groupForm :: HeirsData where
  "groupForm = (estateForm 1000 0 0)
     \<lparr> wivesCount := 2, sonsCount := 3, daughtersCount := 2,
       fullBrothersCount := 2, fullSistersCount := 1 \<rparr>"

definition groupResponse :: CalculationResponse where
  "groupResponse = \<lparr> shares =
     [\<lparr> heir = ascii ''Wives'', amount = 120, sharePercentage = 12, shareFraction = ascii ''3/25'' \<rparr>,
      \<lparr> heir = ascii ''Sons'', amount = 600, sharePercentage = 60, shareFraction = ascii ''3/5'' \<rparr>,
      \<lparr> heir = ascii ''Daughters'', amount = 200, sharePercentage = 20, shareFraction = ascii ''1/5'' \<rparr>,
      \<lparr> heir = ascii ''Full Brothers'', amount = 50, sharePercentage = 5, shareFraction = ascii ''1/20'' \<rparr>,
      \<lparr> heir = ascii ''Full Sisters'', amount = 30, sharePercentage = 3, shareFraction = ascii ''3/100'' \<rparr>] \<rparr>"

text \<open>A father and two sons, and an Arabic response that lists the sons' share
  (\<open>al-abna'\<close>) before the father's (\<open>al-ab\<close>).\<close>

definition fatherSonsForm :: HeirsData where
  "fatherSonsForm = (estateForm 600 0 0) \<lparr> sonsCount := 2, hasFather := True \<rparr>"

definition sonsShareAr :: Share where
  "sonsShareAr = \<lparr> heir = [0x627, 0x644, 0x623, 0x628, 0x646, 0x627, 0x621], amount = 500,
                   sharePercentage = 84, shareFraction = ascii ''5/6'' \<rparr>"

definition fatherShareAr :: Share where
  "fatherShareAr = \<lparr> heir = [0x627, 0x644, 0x623, 0x628], amount = 100,
                     sharePercentage = 16, shareFraction = ascii ''1/6'' \<rparr>"

definition arabicResponse :: CalculationResponse where
  "arabicResponse = \<lparr> shares = [sonsShareAr, fatherShareAr] \<rparr>"

text \<open>A mother and two paternal brothers, with a share for each class.\<close>

definition paternalForm :: HeirsData where
  "paternalForm = (estateForm 600 0 0) \<lparr> hasMother := True, paternalBrothersCount := 2 \<rparr>"

definition paternalResponse :: CalculationResponse where
  "paternalResponse = \<lparr> shares =
     [\<lparr> heir = ascii ''Mother'', amount = 200, sharePercentage = 33,
        shareFraction = ascii ''1/3'' \<rparr>,
      \<lparr> heir = ascii ''Paternal Brothers'', amount = 400, sharePercentage = 67,
        shareFraction = ascii ''2/3'' \<rparr>] \<rparr>"

text \<open>Six sons and a share of 100 for them.\<close>

definition sixSonsForm :: HeirsData where
  "sixSonsForm = (estateForm 100 0 0) \<lparr> sonsCount := 6 \<rparr>"

definition sixSonsResponse :: CalculationResponse where
  "sixSonsResponse = \<lparr> shares =
     [\<lparr> heir = ascii ''Sons'', amount = 100, sharePercentage = 100,
        shareFraction = ascii ''1/1'' \<rparr>] \<rparr>"

text \<open>A family with a member in each of the eight classes, two of them in three of
  the groups, and a response with one English-named share for each class.\<close>

definition familyForm :: HeirsData where
  "familyForm = (estateForm 1000 0 0)
     \<lparr> hasHusband := True, wivesCount := 2, sonsCount := 2, daughtersCount := 1,
       hasFather := True, hasMother := True, fullBrothersCount := 2, fullSistersCount := 1 \<rparr>"

definition everyClassResponse :: CalculationResponse where
  "everyClassResponse = \<lparr> shares =
     [\<lparr> heir = ascii ''Husband'', amount = 250, sharePercentage = 25, shareFraction = ascii ''1/4'' \<rparr>,
      \<lparr> heir = ascii ''Wives'', amount = 50, sharePercentage = 5, shareFraction = ascii ''1/20'' \<rparr>,
      \<lparr> heir = ascii ''Father'', amount = 150, sharePercentage = 15, shareFraction = ascii ''3/20'' \<rparr>,
      \<lparr> heir = ascii ''Mother'', amount = 150, sharePercentage = 15, shareFraction = ascii ''3/20'' \<rparr>,
      \<lparr> heir = ascii ''Sons'', amount = 200, sharePercentage = 20, shareFraction = ascii ''1/5'' \<rparr>,
      \<lparr> heir = ascii ''Daughter'', amount = 100, sharePercentage = 10, shareFraction = ascii ''1/10'' \<rparr>,
      \<lparr> heir = ascii ''Full Brothers'', amount = 60, sharePercentage = 6, shareFraction = ascii ''3/50'' \<rparr>,
      \<lparr> heir = ascii ''Full Sister'', amount = 40, sharePercentage = 4, shareFraction = ascii ''1/25'' \<rparr>] \<rparr>"

text \<open>A form with a member in every class that \<open>individualHeirs\<close> looks at, and a response
  whose single share has a name that contains none of the keywords.\<close>

definition fullForm :: HeirsData where
  "fullForm = (estateForm 1000 0 0)
     \<lparr> hasHusband := True, wivesCount := 1, sonsCount := 1, daughtersCount := 1,
       hasFather := True, hasMother := True, fullBrothersCount := 1, fullSistersCount := 1 \<rparr>"

definition unmatchedResponse :: CalculationResponse where
  "unmatchedResponse = \<lparr> shares =
     [\<lparr> heir = ascii ''Paternal Brother'', amount = 1000, sharePercentage = 100,
        shareFraction = ascii ''1/1'' \<rparr>] \<rparr>"

text \<open>Two outcomes of the external call for the same form, and a state to start from.\<close>

definition serviceA :: "HeirsData \<Rightarrow> Language \<Rightarrow> unit + CalculationResponse" where
  "serviceA fd l = Inr paternalResponse"

definition serviceB :: "HeirsData \<Rightarrow> Language \<Rightarrow> unit + CalculationResponse" where
  "serviceB fd l = Inr unmatchedResponse"

definition serviceDown :: "HeirsData \<Rightarrow> Language \<Rightarrow> unit + CalculationResponse" where
  "serviceDown fd l = Inl ()"

text \<open>A service that answers English requests only.\<close>

definition serviceEnglishOnly :: "HeirsData \<Rightarrow> Language \<Rightarrow> unit + CalculationResponse" where
  "serviceEnglishOnly fd l = (if l = en then Inr paternalResponse else Inl ())"

definition startState :: AppState where
  "startState = \<lparr> lang = en, view = ViewForm, step = 4, loading = False,
                  results = None, formData = paternalForm \<rparr>"

section \<open>Properties of the net estate calculation\<close>

lemma orZero_id: "orZero x = x"
  by (simp add: orZero_def)

lemma netEstateCalculations_fields:
  "estate (netEstateCalculations fd) = estateValue fd"
  "NetEstate.debts (netEstateCalculations fd) = HeirsData.debts fd"
  "will (netEstateCalculations fd) = willAmount fd"
  "net (netEstateCalculations fd) =
     max 0 (max 0 (estateValue fd - HeirsData.debts fd) - willAmount fd)"
  "isWillOverLimit (netEstateCalculations fd) =
     (estateValue fd / 3 < willAmount fd \<and> 0 < estateValue fd)"
  by (simp_all add: netEstateCalculations_def Let_def orZero_id)

subsection \<open>The bequest is subtracted as entered\<close>

text \<open>C1, as stated, fails: with an estate of 300, no debts and a bequest of 200,
  the cap would be 100 and the net estate 200, but \<open>netEstateCalculations\<close> keeps the
  bequest at 200 and returns the net estate 100.\<close>

theorem netEstate_bequest_not_capped:
  "net (netEstateCalculations (estateForm 300 0 200))
     \<noteq> max 0 (300 - 0) - min 200 (max 0 (300 - 0) / 3)
   \<and> will (netEstateCalculations (estateForm 300 0 200)) \<noteq> min 200 (max 0 (300 - 0) / 3)"
  by (simp add: netEstateCalculations_fields estateForm_def)

text \<open>C1, amended: for every input the distributable remainder is
  \<open>max(0, estateValue - debts)\<close>, the bequest is applied as entered, without a cap, and
  the net estate is \<open>max(0, remainder - bequest)\<close>. Whenever the bequest does not exceed
  one third of the remainder, this is the remainder minus \<open>min(bequest, remainder / 3)\<close>.\<close>

theorem netEstate_subtracts_raw_bequest:
  "will (netEstateCalculations fd) = willAmount fd
   \<and> net (netEstateCalculations fd) = max 0 (initialRemainder fd - willAmount fd)
   \<and> (willAmount fd \<le> initialRemainder fd / 3 \<longrightarrow>
        net (netEstateCalculations fd)
          = initialRemainder fd - min (willAmount fd) (initialRemainder fd / 3))"
proof -
  have nonneg: "0 \<le> initialRemainder fd"
    by (simp add: initialRemainder_def)
  have raw: "net (netEstateCalculations fd) = max 0 (initialRemainder fd - willAmount fd)"
    by (simp add: netEstateCalculations_fields initialRemainder_def orZero_id)
  have within: "net (netEstateCalculations fd)
          = initialRemainder fd - min (willAmount fd) (initialRemainder fd / 3)"
    if "willAmount fd \<le> initialRemainder fd / 3"
    using that nonneg unfolding raw by (simp add: min_def max_def)
  show ?thesis
    using raw within by (simp add: netEstateCalculations_fields)
qed

text \<open>The amended C1 at an estate of 90,000 with a bequest of 20,000, which is within
  the cap.\<close>

theorem netEstate_subtracts_raw_bequest_witness:
  "willAmount (estateForm 90000 0 20000) \<le> initialRemainder (estateForm 90000 0 20000) / 3
   \<and> net (netEstateCalculations (estateForm 90000 0 20000)) = 70000"
  using netEstate_subtracts_raw_bequest [of "estateForm 90000 0 20000"]
  by (simp add: estateForm_def initialRemainder_def orZero_def)

subsection \<open>Scenario D\<close>

text \<open>C2, as stated, fails: for an estate of 90,000, no debts and a bequest of 40,000
  the net estate returned is not 60,000 and the bequest applied is not 30,000.\<close>

theorem scenarioD_bequest_not_capped:
  "net (netEstateCalculations (estateForm 90000 0 40000)) \<noteq> 60000
   \<and> will (netEstateCalculations (estateForm 90000 0 40000)) \<noteq> 30000"
  by (simp add: netEstateCalculations_fields estateForm_def)

text \<open>C2, amended: for an estate of 90,000, no debts and a bequest of 40,000, one third
  of the estate is 30,000, the over-limit flag is set, the bequest applied is the
  entered 40,000 and the net estate is 50,000. The result has no field for an excess
  amount.\<close>

theorem scenarioD_raw_bequest:
  "estateValue (estateForm 90000 0 40000) / 3 = 30000
   \<and> netEstateCalculations (estateForm 90000 0 40000)
       = \<lparr> estate = 90000, debts = 0, will = 40000, net = 50000, isWillOverLimit = True \<rparr>"
  by (simp add: netEstateCalculations_def estateForm_def orZero_def Let_def)

subsection \<open>The over-limit flag\<close>



subsection \<open>Debts above the estate value\<close>

text \<open>C4, as stated, fails: with an estate of 100 and debts of 200 the calculation
  does not fail but returns a result, with net estate 0.\<close>

theorem debts_above_estate_no_failure:
  "estateValue (estateForm 100 200 0) < HeirsData.debts (estateForm 100 200 0)
   \<and> netEstateCalculations (estateForm 100 200 0)
       = \<lparr> estate = 100, debts = 200, will = 0, net = 0, isWillOverLimit = False \<rparr>"
  by (simp add: netEstateCalculations_def estateForm_def orZero_def Let_def)

text \<open>C4, amended: for every input whose debts exceed the estate value (and whose
  bequest is not negative), the calculation returns the estate value, the debts and the
  bequest unchanged and a net estate of 0: the remainder is clamped at 0, nothing is
  rejected.\<close>

theorem debts_above_estate_clamped:
  assumes "estateValue fd < HeirsData.debts fd" and "0 \<le> willAmount fd"
  shows "netEstateCalculations fd
       = \<lparr> estate = estateValue fd, debts = HeirsData.debts fd, will = willAmount fd,
           net = 0, isWillOverLimit = (estateValue fd / 3 < willAmount fd \<and> 0 < estateValue fd) \<rparr>"
  using assms by (simp add: netEstateCalculations_def orZero_id Let_def max_def)

text \<open>The amended C4 at an estate of 500 with debts of 800 and a bequest of 50.\<close>

theorem debts_above_estate_clamped_witness:
  "estateValue (estateForm 500 800 50) < HeirsData.debts (estateForm 500 800 50)
   \<and> 0 \<le> willAmount (estateForm 500 800 50)
   \<and> netEstateCalculations (estateForm 500 800 50)
       = \<lparr> estate = 500, debts = 800, will = 50, net = 0, isWillOverLimit = False \<rparr>"
  using debts_above_estate_clamped [of "estateForm 500 800 50"]
  by (simp add: estateForm_def)

section \<open>Properties of the list of individual heirs\<close>

lemma pushLoop_eq:
  "pushLoop nm a p f i n list = list @ map (loopEntry nm a p f) [i..n]"
proof (induction nm a p f i n list rule: pushLoop.induct)
  case (1 nm a p f i n list)
  show ?case
  proof (cases "i \<le> n")
    case True
    then have "[i..n] = i # [i + 1..n]"
      by (simp add: upto_rec1)
    with True 1 show ?thesis
      by (simp add: pushLoop.simps [of nm a p f i n list] loopEntry_def)
  next
    case False
    then show ?thesis
      by (simp add: pushLoop.simps [of nm a p f i n list])
  qed
qed

lemmas block_defs =
  husbandBlock_def wivesBlock_def fatherBlock_def motherBlock_def
  sonsBlock_def daughtersBlock_def fullBrothersBlock_def fullSistersBlock_def

lemma block_append:
  "husbandBlock lc L res fd list = list @ husbandBlock lc L res fd []"
  "wivesBlock lc dv L res fd list = list @ wivesBlock lc dv L res fd []"
  "fatherBlock lc L res fd list = list @ fatherBlock lc L res fd []"
  "motherBlock lc L res fd list = list @ motherBlock lc L res fd []"
  "sonsBlock lc dv L res fd list = list @ sonsBlock lc dv L res fd []"
  "daughtersBlock lc dv L res fd list = list @ daughtersBlock lc dv L res fd []"
  "fullBrothersBlock lc dv L res fd list = list @ fullBrothersBlock lc dv L res fd []"
  "fullSistersBlock lc dv L res fd list = list @ fullSistersBlock lc dv L res fd []"
  by (simp_all add: block_defs pushLoop_eq Let_def split: option.split)

lemma individualHeirs_segments:
  "individualHeirs tbl lc dv (Some res) fd l =
     husbandBlock lc (tbl l) res fd [] @ wivesBlock lc dv (tbl l) res fd []
     @ fatherBlock lc (tbl l) res fd [] @ motherBlock lc (tbl l) res fd []
     @ sonsBlock lc dv (tbl l) res fd [] @ daughtersBlock lc dv (tbl l) res fd []
     @ fullBrothersBlock lc dv (tbl l) res fd [] @ fullSistersBlock lc dv (tbl l) res fd []"
proof -
  define l1 where "l1 = husbandBlock lc (tbl l) res fd []"
  define l2 where "l2 = wivesBlock lc dv (tbl l) res fd l1"
  define l3 where "l3 = fatherBlock lc (tbl l) res fd l2"
  define l4 where "l4 = motherBlock lc (tbl l) res fd l3"
  define l5 where "l5 = sonsBlock lc dv (tbl l) res fd l4"
  define l6 where "l6 = daughtersBlock lc dv (tbl l) res fd l5"
  define l7 where "l7 = fullBrothersBlock lc dv (tbl l) res fd l6"
  define l8 where "l8 = fullSistersBlock lc dv (tbl l) res fd l7"
  have whole: "individualHeirs tbl lc dv (Some res) fd l = l8"
    by (simp add: individualHeirs_def Let_def l1_def l2_def l3_def l4_def l5_def l6_def
        l7_def l8_def)
  have "l8 = l7 @ fullSistersBlock lc dv (tbl l) res fd []"
    unfolding l8_def by (rule block_append)
  also have "l7 = l6 @ fullBrothersBlock lc dv (tbl l) res fd []"
    unfolding l7_def by (rule block_append)
  also have "l6 = l5 @ daughtersBlock lc dv (tbl l) res fd []"
    unfolding l6_def by (rule block_append)
  also have "l5 = l4 @ sonsBlock lc dv (tbl l) res fd []"
    unfolding l5_def by (rule block_append)
  also have "l4 = l3 @ motherBlock lc (tbl l) res fd []"
    unfolding l4_def by (rule block_append)
  also have "l3 = l2 @ fatherBlock lc (tbl l) res fd []"
    unfolding l3_def by (rule block_append)
  also have "l2 = l1 @ wivesBlock lc dv (tbl l) res fd []"
    unfolding l2_def by (rule block_append)
  finally show ?thesis
    unfolding whole l1_def by simp
qed

lemma group_block_matched:
  "0 < wivesCount fd \<Longrightarrow> getShare lc res wivesKeywords = Some s \<Longrightarrow>
     wivesBlock lc dv L res fd [] =
       map (loopEntry (\<lambda>i. if wivesCount fd > 1 then numbered (wife L) i else wife L)
              (dv (Share.amount s) (of_int (wivesCount fd)))
              (dv (sharePercentage s) (of_int (wivesCount fd))) (shareFraction s))
         [1..wivesCount fd]"
  "0 < sonsCount fd \<Longrightarrow> getShare lc res sonsKeywords = Some s \<Longrightarrow>
     sonsBlock lc dv L res fd [] =
       map (loopEntry (\<lambda>i. if sonsCount fd > 1 then numbered (son L) i else son L)
              (dv (Share.amount s) (of_int (sonsCount fd)))
              (dv (sharePercentage s) (of_int (sonsCount fd))) (shareFraction s))
         [1..sonsCount fd]"
  "0 < daughtersCount fd \<Longrightarrow> getShare lc res daughtersKeywords = Some s \<Longrightarrow>
     daughtersBlock lc dv L res fd [] =
       map (loopEntry (\<lambda>i. if daughtersCount fd > 1 then numbered (daughter L) i else daughter L)
              (dv (Share.amount s) (of_int (daughtersCount fd)))
              (dv (sharePercentage s) (of_int (daughtersCount fd))) (shareFraction s))
         [1..daughtersCount fd]"
  "0 < fullBrothersCount fd \<Longrightarrow> getShare lc res fullBrothersKeywords = Some s \<Longrightarrow>
     fullBrothersBlock lc dv L res fd [] =
       map (loopEntry (\<lambda>i. numbered (brother L) i)
              (dv (Share.amount s) (of_int (fullBrothersCount fd)))
              (dv (sharePercentage s) (of_int (fullBrothersCount fd))) (shareFraction s))
         [1..fullBrothersCount fd]"
  "0 < fullSistersCount fd \<Longrightarrow> getShare lc res fullSistersKeywords = Some s \<Longrightarrow>
     fullSistersBlock lc dv L res fd [] =
       map (loopEntry (\<lambda>i. numbered (sister L) i)
              (dv (Share.amount s) (of_int (fullSistersCount fd)))
              (dv (sharePercentage s) (of_int (fullSistersCount fd))) (shareFraction s))
         [1..fullSistersCount fd]"
  by (simp_all add: block_defs pushLoop_eq Let_def)

lemma equalShares_loop:
  assumes "0 \<le> n"
  shows "equalShares (map (loopEntry nm q p f) [1..n]) n q"
proof -
  have amounts: "map HeirEntry.amount (map (loopEntry nm q p f) [1..n]) = replicate (nat n) q"
    by (simp add: map_replicate_const loopEntry_def comp_def)
  have total: "sum_list (map HeirEntry.amount (map (loopEntry nm q p f) [1..n])) = of_int n * q"
    unfolding amounts using assms by (simp add: sum_list_replicate)
  have each: "list_all (\<lambda>e. HeirEntry.amount e = q) (map (loopEntry nm q p f) [1..n])"
    by (simp add: list_all_iff loopEntry_def)
  show ?thesis
    unfolding equalShares_def using total each by simp
qed

lemmas keyword_defs =
  husbandKeywords_def wivesKeywords_def fatherKeywords_def motherKeywords_def
  sonsKeywords_def daughtersKeywords_def fullBrothersKeywords_def fullSistersKeywords_def

text \<open>Quotients of doubles used below, and two index ranges.\<close>

lemma double_quotients:
  "divideDouble 120 2 = 60"
  "divideDouble 600 3 = 200"
  "divideDouble 200 2 = 100"
  "divideDouble 50 2 = 25"
  "divideDouble 30 1 = 30"
  "divideDouble 100 6 = 4691249611844267 / 281474976710656"
  "divideDouble 500 2 = 250"
  "divideDouble 84 2 = 42"
  "divideDouble 5 2 = 5 / 2"
  "divideDouble 20 2 = 10"
  "divideDouble 100 1 = 100"
  "divideDouble 10 1 = 10"
  "divideDouble 60 2 = 30"
  "divideDouble 6 2 = 3"
  "divideDouble 40 1 = 40"
  "divideDouble 4 1 = 4"
  by code_simp+

lemma upto_small: "[1..1] = [1::int]" "[1..2] = [1, 2::int]"
  by code_simp+

subsection \<open>Equal shares within a group class\<close>

lemma sumDouble_six:
  "sumDouble (replicate 6 (4691249611844267 / 281474976710656))
     = 7036874417766401 / 70368744177664"
  by code_simp

lemma sixSons_match:
  "getShare toLowerCaseAscii sixSonsResponse sonsKeywords = Some (shares sixSonsResponse ! 0)"
  by (simp add: getShare_def sixSonsResponse_def keyword_defs ascii_def toLowerCaseAscii_def)

text \<open>C5, as stated, fails: with six sons and a share of 100 for them, each of the
  six entries holds the double nearest to 100 / 6, which is 16.666666666666668, and six
  times that is not 100, whether the six amounts are added exactly or as doubles
  (100.00000000000001).\<close>

theorem six_sons_do_not_add_up:
  "getShare toLowerCaseAscii sixSonsResponse sonsKeywords = Some (shares sixSonsResponse ! 0)
   \<and> Share.amount (shares sixSonsResponse ! 0) = 100
   \<and> individualHeirs sampleLabels toLowerCaseAscii divideDouble (Some sixSonsResponse)
         sixSonsForm en
       = sonsBlock toLowerCaseAscii divideDouble (sampleLabels en) sixSonsResponse sixSonsForm []
   \<and> map HeirEntry.amount
         (sonsBlock toLowerCaseAscii divideDouble (sampleLabels en) sixSonsResponse sixSonsForm [])
       = replicate 6 (4691249611844267 / 281474976710656)
   \<and> sum_list (map HeirEntry.amount
         (sonsBlock toLowerCaseAscii divideDouble (sampleLabels en) sixSonsResponse sixSonsForm []))
       \<noteq> 100
   \<and> sumDouble (map HeirEntry.amount
         (sonsBlock toLowerCaseAscii divideDouble (sampleLabels en) sixSonsResponse sixSonsForm []))
       \<noteq> 100"
proof -
  have six: "sonsCount sixSonsForm = 6"
    by (simp add: sixSonsForm_def estateForm_def)
  have hundred: "Share.amount (shares sixSonsResponse ! 0) = 100"
    by (simp add: sixSonsResponse_def)
  have upto: "[1..6] = [1, 2, 3, 4, 5, 6::int]"
    by code_simp
  have amounts: "map HeirEntry.amount
         (sonsBlock toLowerCaseAscii divideDouble (sampleLabels en) sixSonsResponse sixSonsForm [])
       = replicate 6 (4691249611844267 / 281474976710656)"
    using group_block_matched(2) [of sixSonsForm toLowerCaseAscii sixSonsResponse
        "shares sixSonsResponse ! 0" divideDouble "sampleLabels en"]
    by (simp add: six hundred sixSons_match double_quotients upto loopEntry_def
        numeral_eq_Suc)
  have only: "individualHeirs sampleLabels toLowerCaseAscii divideDouble (Some sixSonsResponse)
         sixSonsForm en
       = sonsBlock toLowerCaseAscii divideDouble (sampleLabels en) sixSonsResponse sixSonsForm []"
    unfolding individualHeirs_segments
    by (simp add: husbandBlock_def wivesBlock_def fatherBlock_def motherBlock_def
        daughtersBlock_def fullBrothersBlock_def fullSistersBlock_def
        sixSonsForm_def estateForm_def)
  have exact: "sum_list (replicate 6 (4691249611844267 / 281474976710656 :: rat)) \<noteq> 100"
    by (simp add: sum_list_replicate)
  have rounded: "sumDouble (replicate 6 (4691249611844267 / 281474976710656)) \<noteq> 100"
    unfolding sumDouble_six by simp
  show ?thesis
    using sixSons_match hundred only exact rounded unfolding amounts by blast
qed

text \<open>C5, amended: the list is the concatenation of what the eight blocks push, in
  source order. For each group class (wives, sons, daughters, full brothers, full
  sisters) with a positive head count \<open>n\<close> and a matched share, the class's block pushes
  \<open>n\<close> entries that all hold the same amount, the quotient of the share's amount by \<open>n\<close>
  as the division of numbers gives it. Their amounts add up to \<open>n\<close> times that quotient,
  which is the share's amount exactly when the quotient carries no rounding error.\<close>

theorem equal_shares_of_group_classes:
  "individualHeirs tbl lc dv (Some res) fd l =
     husbandBlock lc (tbl l) res fd [] @ wivesBlock lc dv (tbl l) res fd []
     @ fatherBlock lc (tbl l) res fd [] @ motherBlock lc (tbl l) res fd []
     @ sonsBlock lc dv (tbl l) res fd [] @ daughtersBlock lc dv (tbl l) res fd []
     @ fullBrothersBlock lc dv (tbl l) res fd [] @ fullSistersBlock lc dv (tbl l) res fd []
   \<and> (0 < wivesCount fd \<and> getShare lc res wivesKeywords = Some sw \<longrightarrow>
        equalShares (wivesBlock lc dv (tbl l) res fd []) (wivesCount fd)
          (dv (Share.amount sw) (of_int (wivesCount fd)))
        \<and> (sum_list (map HeirEntry.amount (wivesBlock lc dv (tbl l) res fd [])) = Share.amount sw
             \<longleftrightarrow> of_int (wivesCount fd) * dv (Share.amount sw) (of_int (wivesCount fd))
                   = Share.amount sw))
   \<and> (0 < sonsCount fd \<and> getShare lc res sonsKeywords = Some ss \<longrightarrow>
        equalShares (sonsBlock lc dv (tbl l) res fd []) (sonsCount fd)
          (dv (Share.amount ss) (of_int (sonsCount fd)))
        \<and> (sum_list (map HeirEntry.amount (sonsBlock lc dv (tbl l) res fd [])) = Share.amount ss
             \<longleftrightarrow> of_int (sonsCount fd) * dv (Share.amount ss) (of_int (sonsCount fd))
                   = Share.amount ss))
   \<and> (0 < daughtersCount fd \<and> getShare lc res daughtersKeywords = Some sd \<longrightarrow>
        equalShares (daughtersBlock lc dv (tbl l) res fd []) (daughtersCount fd)
          (dv (Share.amount sd) (of_int (daughtersCount fd)))
        \<and> (sum_list (map HeirEntry.amount (daughtersBlock lc dv (tbl l) res fd [])) = Share.amount sd
             \<longleftrightarrow> of_int (daughtersCount fd) * dv (Share.amount sd) (of_int (daughtersCount fd))
                   = Share.amount sd))
   \<and> (0 < fullBrothersCount fd \<and> getShare lc res fullBrothersKeywords = Some sb \<longrightarrow>
        equalShares (fullBrothersBlock lc dv (tbl l) res fd []) (fullBrothersCount fd)
          (dv (Share.amount sb) (of_int (fullBrothersCount fd)))
        \<and> (sum_list (map HeirEntry.amount (fullBrothersBlock lc dv (tbl l) res fd [])) = Share.amount sb
             \<longleftrightarrow> of_int (fullBrothersCount fd) * dv (Share.amount sb) (of_int (fullBrothersCount fd))
                   = Share.amount sb))
   \<and> (0 < fullSistersCount fd \<and> getShare lc res fullSistersKeywords = Some sz \<longrightarrow>
        equalShares (fullSistersBlock lc dv (tbl l) res fd []) (fullSistersCount fd)
          (dv (Share.amount sz) (of_int (fullSistersCount fd)))
        \<and> (sum_list (map HeirEntry.amount (fullSistersBlock lc dv (tbl l) res fd [])) = Share.amount sz
             \<longleftrightarrow> of_int (fullSistersCount fd) * dv (Share.amount sz) (of_int (fullSistersCount fd))
                   = Share.amount sz))"
proof -
  have split: "equalShares (map (loopEntry nm q p f) [1..n]) n q
      \<and> (sum_list (map HeirEntry.amount (map (loopEntry nm q p f) [1..n])) = a
           \<longleftrightarrow> of_int n * q = a)"
    if "0 < n" for nm q p f n a
    using equalShares_loop [of n nm q p f] that by (simp add: equalShares_def)
  show ?thesis
    by (simp only: individualHeirs_segments)
       (auto simp only: group_block_matched split)
qed

lemma groupResponse_matches:
  "getShare toLowerCaseAscii groupResponse wivesKeywords = Some (shares groupResponse ! 0)"
  "getShare toLowerCaseAscii groupResponse sonsKeywords = Some (shares groupResponse ! 1)"
  "getShare toLowerCaseAscii groupResponse daughtersKeywords = Some (shares groupResponse ! 2)"
  "getShare toLowerCaseAscii groupResponse fullBrothersKeywords = Some (shares groupResponse ! 3)"
  "getShare toLowerCaseAscii groupResponse fullSistersKeywords = Some (shares groupResponse ! 4)"
  by (simp_all add: getShare_def groupResponse_def keyword_defs ascii_def toLowerCaseAscii_def)

text \<open>C5 on a family with two wives, three sons, two daughters, two full brothers and
  one full sister.\<close>

text \<open>The amended C5 on a family with two wives, three sons, two daughters, two full
  brothers and one full sister, whose shares divide without rounding.\<close>

theorem equal_shares_of_group_classes_witness:
  "(0 < wivesCount groupForm
      \<and> getShare toLowerCaseAscii groupResponse wivesKeywords = Some (shares groupResponse ! 0))
   \<and> (0 < sonsCount groupForm
      \<and> getShare toLowerCaseAscii groupResponse sonsKeywords = Some (shares groupResponse ! 1))
   \<and> (0 < daughtersCount groupForm
      \<and> getShare toLowerCaseAscii groupResponse daughtersKeywords = Some (shares groupResponse ! 2))
   \<and> (0 < fullBrothersCount groupForm
      \<and> getShare toLowerCaseAscii groupResponse fullBrothersKeywords
          = Some (shares groupResponse ! 3))
   \<and> (0 < fullSistersCount groupForm
      \<and> getShare toLowerCaseAscii groupResponse fullSistersKeywords
          = Some (shares groupResponse ! 4))
   \<and> equalShares
        (wivesBlock toLowerCaseAscii divideDouble (sampleLabels en) groupResponse groupForm [])
        2 60
   \<and> equalShares
        (sonsBlock toLowerCaseAscii divideDouble (sampleLabels en) groupResponse groupForm [])
        3 200
   \<and> equalShares
        (daughtersBlock toLowerCaseAscii divideDouble (sampleLabels en) groupResponse groupForm [])
        2 100
   \<and> equalShares
        (fullBrothersBlock toLowerCaseAscii divideDouble (sampleLabels en) groupResponse groupForm [])
        2 25
   \<and> equalShares
        (fullSistersBlock toLowerCaseAscii divideDouble (sampleLabels en) groupResponse groupForm [])
        1 30
   \<and> sum_list (map HeirEntry.amount
        (sonsBlock toLowerCaseAscii divideDouble (sampleLabels en) groupResponse groupForm []))
       = 600"
proof -
  have counts: "wivesCount groupForm = 2" "sonsCount groupForm = 3" "daughtersCount groupForm = 2"
    "fullBrothersCount groupForm = 2" "fullSistersCount groupForm = 1"
    by (simp_all add: groupForm_def estateForm_def)
  have amounts: "Share.amount (shares groupResponse ! 0) = 120"
    "Share.amount (shares groupResponse ! 1) = 600"
    "Share.amount (shares groupResponse ! Suc 0) = 600"
    "Share.amount (shares groupResponse ! 2) = 200"
    "Share.amount (shares groupResponse ! 3) = 50"
    "Share.amount (shares groupResponse ! 4) = 30"
    by (simp_all add: groupResponse_def)
  show ?thesis
    using equal_shares_of_group_classes
      [of sampleLabels toLowerCaseAscii divideDouble groupResponse groupForm en
        "shares groupResponse ! 0" "shares groupResponse ! 1" "shares groupResponse ! 2"
        "shares groupResponse ! 3" "shares groupResponse ! 4"]
    by (simp add: groupResponse_matches counts amounts double_quotients)
qed

subsection \<open>How a share is attributed to a class\<close>

lemma startsWith_iff: "startsWith s k \<longleftrightarrow> (\<exists>after. s = k @ after)"
  by (induction s k rule: startsWith.induct) auto

lemma includes_js_iff: "includes_js s k \<longleftrightarrow> (\<exists>before after. s = before @ k @ after)"
proof (induction s)
  case Nil
  then show ?case by auto
next
  case (Cons c s)
  show ?case
  proof
    assume "includes_js (c # s) k"
    then consider "startsWith (c # s) k" | "includes_js s k" by auto
    then show "\<exists>before after. c # s = before @ k @ after"
    proof cases
      case 1
      then obtain after where "c # s = k @ after"
        unfolding startsWith_iff by blast
      then have "c # s = [] @ k @ after" by simp
      then show ?thesis by blast
    next
      case 2
      then obtain before after where "s = before @ k @ after"
        using Cons.IH by blast
      then have "c # s = (c # before) @ k @ after" by simp
      then show ?thesis by blast
    qed
  next
    assume "\<exists>before after. c # s = before @ k @ after"
    then obtain before after where eq: "c # s = before @ k @ after" by blast
    show "includes_js (c # s) k"
    proof (cases before)
      case Nil
      with eq have "startsWith (c # s) k"
        unfolding startsWith_iff by auto
      then show ?thesis by simp
    next
      case (Cons b before')
      with eq have "s = before' @ k @ after" by simp
      then have "includes_js s k"
        using Cons.IH by blast
      then show ?thesis by simp
    qed
  qed
qed

lemma find_first:
  "find P xs = Some x \<longleftrightarrow> (\<exists>ys zs. xs = ys @ x # zs \<and> P x \<and> list_all (\<lambda>y. \<not> P y) ys)"
proof (induction xs)
  case Nil
  then show ?case by simp
next
  case (Cons a xs)
  show ?case
  proof (cases "P a")
    case True
    have "(\<exists>ys zs. a # xs = ys @ x # zs \<and> P x \<and> list_all (\<lambda>y. \<not> P y) ys) \<longleftrightarrow> a = x"
    proof
      assume "\<exists>ys zs. a # xs = ys @ x # zs \<and> P x \<and> list_all (\<lambda>y. \<not> P y) ys"
      then obtain ys zs where h: "a # xs = ys @ x # zs" "list_all (\<lambda>y. \<not> P y) ys" by blast
      show "a = x"
      proof (cases ys)
        case Nil
        with h show ?thesis by simp
      next
        case (Cons y ys')
        with h True show ?thesis by simp
      qed
    next
      assume "a = x"
      then have "a # xs = [] @ x # xs \<and> P x \<and> list_all (\<lambda>y. \<not> P y) []"
        using True by simp
      then show "\<exists>ys zs. a # xs = ys @ x # zs \<and> P x \<and> list_all (\<lambda>y. \<not> P y) ys"
        by blast
    qed
    with True show ?thesis by simp
  next
    case False
    have "(\<exists>ys zs. a # xs = ys @ x # zs \<and> P x \<and> list_all (\<lambda>y. \<not> P y) ys)
       \<longleftrightarrow> (\<exists>ys zs. xs = ys @ x # zs \<and> P x \<and> list_all (\<lambda>y. \<not> P y) ys)"
    proof
      assume "\<exists>ys zs. a # xs = ys @ x # zs \<and> P x \<and> list_all (\<lambda>y. \<not> P y) ys"
      then obtain ys zs where h: "a # xs = ys @ x # zs" "P x" "list_all (\<lambda>y. \<not> P y) ys"
        by blast
      show "\<exists>ys zs. xs = ys @ x # zs \<and> P x \<and> list_all (\<lambda>y. \<not> P y) ys"
      proof (cases ys)
        case Nil
        with h False show ?thesis by simp
      next
        case (Cons y ys')
        with h have "xs = ys' @ x # zs \<and> P x \<and> list_all (\<lambda>y. \<not> P y) ys'" by simp
        then show ?thesis by blast
      qed
    next
      assume "\<exists>ys zs. xs = ys @ x # zs \<and> P x \<and> list_all (\<lambda>y. \<not> P y) ys"
      then obtain ys zs where h: "xs = ys @ x # zs" "P x" "list_all (\<lambda>y. \<not> P y) ys"
        by blast
      then have "a # xs = (a # ys) @ x # zs \<and> P x \<and> list_all (\<lambda>y. \<not> P y) (a # ys)"
        using False by simp
      then show "\<exists>ys zs. a # xs = ys @ x # zs \<and> P x \<and> list_all (\<lambda>y. \<not> P y) ys"
        by blast
    qed
    with False Cons.IH show ?thesis by simp
  qed
qed

lemma keyword_test:
  "list_ex (\<lambda>k. includes_js (lc (heir s)) (lc k)) kws \<longleftrightarrow> nameContainsKeyword lc kws s"
  by (simp add: nameContainsKeyword_def list_ex_iff includes_js_iff)

lemma getShare_Some_iff:
  "getShare lc res kws = Some s \<longleftrightarrow> firstSubstringMatch lc kws (shares res) s"
  unfolding getShare_def find_first keyword_test firstSubstringMatch_def ..

lemma getShare_None_iff:
  "getShare lc res kws = None \<longleftrightarrow> noSubstringMatch lc kws (shares res)"
  by (auto simp add: getShare_def find_None_iff keyword_test list_all_iff noSubstringMatch_def)

lemma block_unmatched:
  "hasHusband fd \<longrightarrow> getShare lc res husbandKeywords = None \<Longrightarrow>
     husbandBlock lc L res fd list = list"
  "0 < wivesCount fd \<longrightarrow> getShare lc res wivesKeywords = None \<Longrightarrow>
     wivesBlock lc dv L res fd list = list"
  "hasFather fd \<longrightarrow> getShare lc res fatherKeywords = None \<Longrightarrow>
     fatherBlock lc L res fd list = list"
  "hasMother fd \<longrightarrow> getShare lc res motherKeywords = None \<Longrightarrow>
     motherBlock lc L res fd list = list"
  "0 < sonsCount fd \<longrightarrow> getShare lc res sonsKeywords = None \<Longrightarrow>
     sonsBlock lc dv L res fd list = list"
  "0 < daughtersCount fd \<longrightarrow> getShare lc res daughtersKeywords = None \<Longrightarrow>
     daughtersBlock lc dv L res fd list = list"
  "0 < fullBrothersCount fd \<longrightarrow> getShare lc res fullBrothersKeywords = None \<Longrightarrow>
     fullBrothersBlock lc dv L res fd list = list"
  "0 < fullSistersCount fd \<longrightarrow> getShare lc res fullSistersKeywords = None \<Longrightarrow>
     fullSistersBlock lc dv L res fd list = list"
  by (simp_all add: block_defs)

lemma single_block_matched:
  "hasHusband fd \<Longrightarrow> getShare lc res husbandKeywords = Some s \<Longrightarrow>
     husbandBlock lc L res fd [] = [singleEntry (husband L) s]"
  "hasFather fd \<Longrightarrow> getShare lc res fatherKeywords = Some s \<Longrightarrow>
     fatherBlock lc L res fd [] = [singleEntry (father L) s]"
  "hasMother fd \<Longrightarrow> getShare lc res motherKeywords = Some s \<Longrightarrow>
     motherBlock lc L res fd [] = [singleEntry (mother L) s]"
  by (simp_all add: block_defs singleEntry_def)

lemma member_block_matched:
  "0 < wivesCount fd \<Longrightarrow> getShare lc res wivesKeywords = Some s \<Longrightarrow>
     wivesBlock lc dv L res fd []
       = memberEntries dv (\<lambda>i. if 1 < wivesCount fd then numbered (wife L) i else wife L)
           (wivesCount fd) s"
  "0 < sonsCount fd \<Longrightarrow> getShare lc res sonsKeywords = Some s \<Longrightarrow>
     sonsBlock lc dv L res fd []
       = memberEntries dv (\<lambda>i. if 1 < sonsCount fd then numbered (son L) i else son L)
           (sonsCount fd) s"
  "0 < daughtersCount fd \<Longrightarrow> getShare lc res daughtersKeywords = Some s \<Longrightarrow>
     daughtersBlock lc dv L res fd []
       = memberEntries dv (\<lambda>i. if 1 < daughtersCount fd then numbered (daughter L) i else daughter L)
           (daughtersCount fd) s"
  "0 < fullBrothersCount fd \<Longrightarrow> getShare lc res fullBrothersKeywords = Some s \<Longrightarrow>
     fullBrothersBlock lc dv L res fd []
       = memberEntries dv (\<lambda>i. numbered (brother L) i)
           (fullBrothersCount fd) s"
  "0 < fullSistersCount fd \<Longrightarrow> getShare lc res fullSistersKeywords = Some s \<Longrightarrow>
     fullSistersBlock lc dv L res fd []
       = memberEntries dv (\<lambda>i. numbered (sister L) i)
           (fullSistersCount fd) s"
  by (simp_all add: group_block_matched memberEntries_def loopEntry_def)

lemma arabic_father_match:
  "getShare toLowerCaseAscii arabicResponse fatherKeywords = Some sonsShareAr"
  by (simp add: getShare_def arabicResponse_def sonsShareAr_def fatherShareAr_def
      keyword_defs ascii_def toLowerCaseAscii_def)

lemma arabic_sons_match:
  "getShare toLowerCaseAscii arabicResponse sonsKeywords = Some sonsShareAr"
  by (simp add: getShare_def arabicResponse_def sonsShareAr_def fatherShareAr_def
      keyword_defs ascii_def toLowerCaseAscii_def)

text \<open>C7, as stated, fails: \<open>individualHeirs\<close> has no class tag to go by and picks the
  share of a class by substring search on the heir names. For a father and two sons and
  an Arabic response that lists the sons' share (500) before the father's (100), the
  father keyword occurs inside the sons' name, so the entry shown for the father carries
  the sons' share.\<close>

theorem father_entry_shows_sons_share:
  "heir fatherShareAr = father (sampleLabels ar)
   \<and> Share.amount fatherShareAr = 100
   \<and> shares arabicResponse = [sonsShareAr, fatherShareAr]
   \<and> getShare toLowerCaseAscii arabicResponse fatherKeywords = Some sonsShareAr
   \<and> individualHeirs sampleLabels toLowerCaseAscii divideDouble (Some arabicResponse)
         fatherSonsForm ar
       = [\<lparr> name = father (sampleLabels ar), amount = 500, percentage = 84,
            fraction = ascii ''5/6'' \<rparr>,
          \<lparr> name = numbered (son (sampleLabels ar)) 1, amount = 250, percentage = 42,
            fraction = ascii ''5/6'' \<rparr>,
          \<lparr> name = numbered (son (sampleLabels ar)) 2, amount = 250, percentage = 42,
            fraction = ascii ''5/6'' \<rparr>]"
proof -
  have list: "individualHeirs sampleLabels toLowerCaseAscii divideDouble (Some arabicResponse)
         fatherSonsForm ar
       = [\<lparr> name = father (sampleLabels ar), amount = 500, percentage = 84,
            fraction = ascii ''5/6'' \<rparr>,
          \<lparr> name = numbered (son (sampleLabels ar)) 1, amount = 250, percentage = 42,
            fraction = ascii ''5/6'' \<rparr>,
          \<lparr> name = numbered (son (sampleLabels ar)) 2, amount = 250, percentage = 42,
            fraction = ascii ''5/6'' \<rparr>]"
    by (simp add: individualHeirs_def Let_def block_defs arabic_father_match arabic_sons_match
        fatherSonsForm_def estateForm_def pushLoop.simps sonsShareAr_def
        double_quotients)
  show ?thesis
    using list arabic_father_match
    by (simp add: fatherShareAr_def sampleLabels_def arabicResponse_def)
qed

text \<open>C7, amended: the list is the concatenation of the entries of the eight classes, in
  source order, and the entries of a class carry the first share of \<open>results.shares\<close>
  whose lower-cased heir name contains one of the class's lower-cased keywords as a
  contiguous substring: a class of one (husband, father, mother) shows that share as it
  is under the class label, a group shows it divided by the head count, once per member.
  A class that is absent, or for which no heir name contains a keyword, has no entry.\<close>

theorem entries_carry_first_substring_match:
  "individualHeirs tbl lc dv (Some res) fd l =
     husbandBlock lc (tbl l) res fd [] @ wivesBlock lc dv (tbl l) res fd []
     @ fatherBlock lc (tbl l) res fd [] @ motherBlock lc (tbl l) res fd []
     @ sonsBlock lc dv (tbl l) res fd [] @ daughtersBlock lc dv (tbl l) res fd []
     @ fullBrothersBlock lc dv (tbl l) res fd [] @ fullSistersBlock lc dv (tbl l) res fd []
   \<and> (hasHusband fd \<and> firstSubstringMatch lc husbandKeywords (shares res) sh \<longrightarrow>
        husbandBlock lc (tbl l) res fd [] = [singleEntry (husband (tbl l)) sh])
   \<and> ((hasHusband fd \<longrightarrow> noSubstringMatch lc husbandKeywords (shares res)) \<longrightarrow>
        husbandBlock lc (tbl l) res fd [] = [])
   \<and> (0 < wivesCount fd \<and> firstSubstringMatch lc wivesKeywords (shares res) sw \<longrightarrow>
        wivesBlock lc dv (tbl l) res fd []
          = memberEntries dv (\<lambda>i. if 1 < wivesCount fd then numbered (wife (tbl l)) i else wife (tbl l))
              (wivesCount fd) sw)
   \<and> ((0 < wivesCount fd \<longrightarrow> noSubstringMatch lc wivesKeywords (shares res)) \<longrightarrow>
        wivesBlock lc dv (tbl l) res fd [] = [])
   \<and> (hasFather fd \<and> firstSubstringMatch lc fatherKeywords (shares res) sf \<longrightarrow>
        fatherBlock lc (tbl l) res fd [] = [singleEntry (father (tbl l)) sf])
   \<and> ((hasFather fd \<longrightarrow> noSubstringMatch lc fatherKeywords (shares res)) \<longrightarrow>
        fatherBlock lc (tbl l) res fd [] = [])
   \<and> (hasMother fd \<and> firstSubstringMatch lc motherKeywords (shares res) sm \<longrightarrow>
        motherBlock lc (tbl l) res fd [] = [singleEntry (mother (tbl l)) sm])
   \<and> ((hasMother fd \<longrightarrow> noSubstringMatch lc motherKeywords (shares res)) \<longrightarrow>
        motherBlock lc (tbl l) res fd [] = [])
   \<and> (0 < sonsCount fd \<and> firstSubstringMatch lc sonsKeywords (shares res) ss \<longrightarrow>
        sonsBlock lc dv (tbl l) res fd []
          = memberEntries dv (\<lambda>i. if 1 < sonsCount fd then numbered (son (tbl l)) i else son (tbl l))
              (sonsCount fd) ss)
   \<and> ((0 < sonsCount fd \<longrightarrow> noSubstringMatch lc sonsKeywords (shares res)) \<longrightarrow>
        sonsBlock lc dv (tbl l) res fd [] = [])
   \<and> (0 < daughtersCount fd \<and> firstSubstringMatch lc daughtersKeywords (shares res) sd \<longrightarrow>
        daughtersBlock lc dv (tbl l) res fd []
          = memberEntries dv (\<lambda>i. if 1 < daughtersCount fd then numbered (daughter (tbl l)) i else daughter (tbl l))
              (daughtersCount fd) sd)
   \<and> ((0 < daughtersCount fd \<longrightarrow> noSubstringMatch lc daughtersKeywords (shares res)) \<longrightarrow>
        daughtersBlock lc dv (tbl l) res fd [] = [])
   \<and> (0 < fullBrothersCount fd \<and> firstSubstringMatch lc fullBrothersKeywords (shares res) sb \<longrightarrow>
        fullBrothersBlock lc dv (tbl l) res fd []
          = memberEntries dv (\<lambda>i. numbered (brother (tbl l)) i)
              (fullBrothersCount fd) sb)
   \<and> ((0 < fullBrothersCount fd \<longrightarrow> noSubstringMatch lc fullBrothersKeywords (shares res)) \<longrightarrow>
        fullBrothersBlock lc dv (tbl l) res fd [] = [])
   \<and> (0 < fullSistersCount fd \<and> firstSubstringMatch lc fullSistersKeywords (shares res) sz \<longrightarrow>
        fullSistersBlock lc dv (tbl l) res fd []
          = memberEntries dv (\<lambda>i. numbered (sister (tbl l)) i)
              (fullSistersCount fd) sz)
   \<and> ((0 < fullSistersCount fd \<longrightarrow> noSubstringMatch lc fullSistersKeywords (shares res)) \<longrightarrow>
        fullSistersBlock lc dv (tbl l) res fd [] = [])"
  apply (simp only: individualHeirs_segments)
  apply (auto simp only: single_block_matched member_block_matched
      simp flip: getShare_Some_iff getShare_None_iff)
  apply (simp_all add: block_unmatched)
  done

lemma everyClassResponse_matches:
  "getShare toLowerCaseAscii everyClassResponse husbandKeywords
     = Some (shares everyClassResponse ! 0)"
  "getShare toLowerCaseAscii everyClassResponse wivesKeywords
     = Some (shares everyClassResponse ! 1)"
  "getShare toLowerCaseAscii everyClassResponse fatherKeywords
     = Some (shares everyClassResponse ! 2)"
  "getShare toLowerCaseAscii everyClassResponse motherKeywords
     = Some (shares everyClassResponse ! 3)"
  "getShare toLowerCaseAscii everyClassResponse sonsKeywords
     = Some (shares everyClassResponse ! 4)"
  "getShare toLowerCaseAscii everyClassResponse daughtersKeywords
     = Some (shares everyClassResponse ! 5)"
  "getShare toLowerCaseAscii everyClassResponse fullBrothersKeywords
     = Some (shares everyClassResponse ! 6)"
  "getShare toLowerCaseAscii everyClassResponse fullSistersKeywords
     = Some (shares everyClassResponse ! 7)"
  by (simp_all add: getShare_def everyClassResponse_def keyword_defs ascii_def
      toLowerCaseAscii_def)

lemma unmatchedResponse_no_match:
  "getShare toLowerCaseAscii unmatchedResponse husbandKeywords = None"
  "getShare toLowerCaseAscii unmatchedResponse wivesKeywords = None"
  "getShare toLowerCaseAscii unmatchedResponse fatherKeywords = None"
  "getShare toLowerCaseAscii unmatchedResponse motherKeywords = None"
  "getShare toLowerCaseAscii unmatchedResponse sonsKeywords = None"
  "getShare toLowerCaseAscii unmatchedResponse daughtersKeywords = None"
  "getShare toLowerCaseAscii unmatchedResponse fullBrothersKeywords = None"
  "getShare toLowerCaseAscii unmatchedResponse fullSistersKeywords = None"
  by (simp_all add: getShare_def unmatchedResponse_def keyword_defs ascii_def
      toLowerCaseAscii_def)

text \<open>The amended C7 on a family with a member in every class and a share for each,
  and on a form with every class present and a response that matches none.\<close>

theorem entries_carry_first_substring_match_witness:
  "(hasHusband familyForm \<and> 0 < wivesCount familyForm \<and> hasFather familyForm
      \<and> hasMother familyForm \<and> 0 < sonsCount familyForm \<and> 0 < daughtersCount familyForm
      \<and> 0 < fullBrothersCount familyForm \<and> 0 < fullSistersCount familyForm)
   \<and> (firstSubstringMatch toLowerCaseAscii husbandKeywords (shares everyClassResponse)
          (shares everyClassResponse ! 0)
      \<and> firstSubstringMatch toLowerCaseAscii wivesKeywords (shares everyClassResponse)
          (shares everyClassResponse ! 1)
      \<and> firstSubstringMatch toLowerCaseAscii fatherKeywords (shares everyClassResponse)
          (shares everyClassResponse ! 2)
      \<and> firstSubstringMatch toLowerCaseAscii motherKeywords (shares everyClassResponse)
          (shares everyClassResponse ! 3)
      \<and> firstSubstringMatch toLowerCaseAscii sonsKeywords (shares everyClassResponse)
          (shares everyClassResponse ! 4)
      \<and> firstSubstringMatch toLowerCaseAscii daughtersKeywords (shares everyClassResponse)
          (shares everyClassResponse ! 5)
      \<and> firstSubstringMatch toLowerCaseAscii fullBrothersKeywords (shares everyClassResponse)
          (shares everyClassResponse ! 6)
      \<and> firstSubstringMatch toLowerCaseAscii fullSistersKeywords (shares everyClassResponse)
          (shares everyClassResponse ! 7))
   \<and> individualHeirs sampleLabels toLowerCaseAscii divideDouble (Some everyClassResponse)
         familyForm en
       = [\<lparr> name = ascii ''Husband'', amount = 250, percentage = 25,
            fraction = ascii ''1/4'' \<rparr>,
          \<lparr> name = numbered (ascii ''Wife'') 1, amount = 25, percentage = 5 / 2,
            fraction = ascii ''1/20'' \<rparr>,
          \<lparr> name = numbered (ascii ''Wife'') 2, amount = 25, percentage = 5 / 2,
            fraction = ascii ''1/20'' \<rparr>,
          \<lparr> name = ascii ''Father'', amount = 150, percentage = 15,
            fraction = ascii ''3/20'' \<rparr>,
          \<lparr> name = ascii ''Mother'', amount = 150, percentage = 15,
            fraction = ascii ''3/20'' \<rparr>,
          \<lparr> name = numbered (ascii ''Son'') 1, amount = 100, percentage = 10,
            fraction = ascii ''1/5'' \<rparr>,
          \<lparr> name = numbered (ascii ''Son'') 2, amount = 100, percentage = 10,
            fraction = ascii ''1/5'' \<rparr>,
          \<lparr> name = ascii ''Daughter'', amount = 100, percentage = 10,
            fraction = ascii ''1/10'' \<rparr>,
          \<lparr> name = numbered (ascii ''Brother'') 1, amount = 30, percentage = 3,
            fraction = ascii ''3/50'' \<rparr>,
          \<lparr> name = numbered (ascii ''Brother'') 2, amount = 30, percentage = 3,
            fraction = ascii ''3/50'' \<rparr>,
          \<lparr> name = numbered (ascii ''Sister'') 1, amount = 40, percentage = 4,
            fraction = ascii ''1/25'' \<rparr>]
   \<and> (hasHusband fullForm \<and> 0 < wivesCount fullForm \<and> hasFather fullForm
      \<and> hasMother fullForm \<and> 0 < sonsCount fullForm \<and> 0 < daughtersCount fullForm
      \<and> 0 < fullBrothersCount fullForm \<and> 0 < fullSistersCount fullForm)
   \<and> (noSubstringMatch toLowerCaseAscii husbandKeywords (shares unmatchedResponse)
      \<and> noSubstringMatch toLowerCaseAscii wivesKeywords (shares unmatchedResponse)
      \<and> noSubstringMatch toLowerCaseAscii fatherKeywords (shares unmatchedResponse)
      \<and> noSubstringMatch toLowerCaseAscii motherKeywords (shares unmatchedResponse)
      \<and> noSubstringMatch toLowerCaseAscii sonsKeywords (shares unmatchedResponse)
      \<and> noSubstringMatch toLowerCaseAscii daughtersKeywords (shares unmatchedResponse)
      \<and> noSubstringMatch toLowerCaseAscii fullBrothersKeywords (shares unmatchedResponse)
      \<and> noSubstringMatch toLowerCaseAscii fullSistersKeywords (shares unmatchedResponse))
   \<and> individualHeirs sampleLabels toLowerCaseAscii divideDouble (Some unmatchedResponse)
         fullForm en = []"
proof -
  have family: "hasHusband familyForm" "0 < wivesCount familyForm" "hasFather familyForm"
    "hasMother familyForm" "0 < sonsCount familyForm" "0 < daughtersCount familyForm"
    "0 < fullBrothersCount familyForm" "0 < fullSistersCount familyForm"
    by (simp_all add: familyForm_def estateForm_def)
  have full: "hasHusband fullForm" "0 < wivesCount fullForm" "hasFather fullForm"
    "hasMother fullForm" "0 < sonsCount fullForm" "0 < daughtersCount fullForm"
    "0 < fullBrothersCount fullForm" "0 < fullSistersCount fullForm"
    by (simp_all add: fullForm_def estateForm_def)
  note first = everyClassResponse_matches [unfolded getShare_Some_iff]
  note none = unmatchedResponse_no_match [unfolded getShare_None_iff]
  note matched = entries_carry_first_substring_match
      [where tbl = sampleLabels and lc = toLowerCaseAscii and dv = divideDouble
        and res = everyClassResponse and fd = familyForm and l = en
        and sh = "shares everyClassResponse ! 0" and sw = "shares everyClassResponse ! 1"
        and sf = "shares everyClassResponse ! 2" and sm = "shares everyClassResponse ! 3"
        and ss = "shares everyClassResponse ! 4" and sd = "shares everyClassResponse ! 5"
        and sb = "shares everyClassResponse ! 6" and sz = "shares everyClassResponse ! 7"]
  note unmatched = entries_carry_first_substring_match
      [where tbl = sampleLabels and lc = toLowerCaseAscii and dv = divideDouble
        and res = unmatchedResponse and fd = fullForm and l = en]
  have blocks:
    "husbandBlock toLowerCaseAscii (sampleLabels en) everyClassResponse familyForm []
       = [singleEntry (husband (sampleLabels en)) (shares everyClassResponse ! 0)]"
    "wivesBlock toLowerCaseAscii divideDouble (sampleLabels en) everyClassResponse familyForm []
       = memberEntries divideDouble
           (\<lambda>i. if 1 < wivesCount familyForm then numbered (wife (sampleLabels en)) i
                else wife (sampleLabels en))
           (wivesCount familyForm) (shares everyClassResponse ! 1)"
    "fatherBlock toLowerCaseAscii (sampleLabels en) everyClassResponse familyForm []
       = [singleEntry (father (sampleLabels en)) (shares everyClassResponse ! 2)]"
    "motherBlock toLowerCaseAscii (sampleLabels en) everyClassResponse familyForm []
       = [singleEntry (mother (sampleLabels en)) (shares everyClassResponse ! 3)]"
    "sonsBlock toLowerCaseAscii divideDouble (sampleLabels en) everyClassResponse familyForm []
       = memberEntries divideDouble
           (\<lambda>i. if 1 < sonsCount familyForm then numbered (son (sampleLabels en)) i
                else son (sampleLabels en))
           (sonsCount familyForm) (shares everyClassResponse ! 4)"
    "daughtersBlock toLowerCaseAscii divideDouble (sampleLabels en) everyClassResponse
         familyForm []
       = memberEntries divideDouble
           (\<lambda>i. if 1 < daughtersCount familyForm then numbered (daughter (sampleLabels en)) i
                else daughter (sampleLabels en))
           (daughtersCount familyForm) (shares everyClassResponse ! 5)"
    "fullBrothersBlock toLowerCaseAscii divideDouble (sampleLabels en) everyClassResponse
         familyForm []
       = memberEntries divideDouble (\<lambda>i. numbered (brother (sampleLabels en)) i)
           (fullBrothersCount familyForm) (shares everyClassResponse ! 6)"
    "fullSistersBlock toLowerCaseAscii divideDouble (sampleLabels en) everyClassResponse
         familyForm []
       = memberEntries divideDouble (\<lambda>i. numbered (sister (sampleLabels en)) i)
           (fullSistersCount familyForm) (shares everyClassResponse ! 7)"
    using matched family first by blast+
  have whole: "individualHeirs sampleLabels toLowerCaseAscii divideDouble
      (Some everyClassResponse) familyForm en
       = husbandBlock toLowerCaseAscii (sampleLabels en) everyClassResponse familyForm []
         @ wivesBlock toLowerCaseAscii divideDouble (sampleLabels en) everyClassResponse
             familyForm []
         @ fatherBlock toLowerCaseAscii (sampleLabels en) everyClassResponse familyForm []
         @ motherBlock toLowerCaseAscii (sampleLabels en) everyClassResponse familyForm []
         @ sonsBlock toLowerCaseAscii divideDouble (sampleLabels en) everyClassResponse
             familyForm []
         @ daughtersBlock toLowerCaseAscii divideDouble (sampleLabels en) everyClassResponse
             familyForm []
         @ fullBrothersBlock toLowerCaseAscii divideDouble (sampleLabels en)
             everyClassResponse familyForm []
         @ fullSistersBlock toLowerCaseAscii divideDouble (sampleLabels en)
             everyClassResponse familyForm []"
    using matched by blast
  have list: "individualHeirs sampleLabels toLowerCaseAscii divideDouble
      (Some everyClassResponse) familyForm en
       = [\<lparr> name = ascii ''Husband'', amount = 250, percentage = 25,
            fraction = ascii ''1/4'' \<rparr>,
          \<lparr> name = numbered (ascii ''Wife'') 1, amount = 25, percentage = 5 / 2,
            fraction = ascii ''1/20'' \<rparr>,
          \<lparr> name = numbered (ascii ''Wife'') 2, amount = 25, percentage = 5 / 2,
            fraction = ascii ''1/20'' \<rparr>,
          \<lparr> name = ascii ''Father'', amount = 150, percentage = 15,
            fraction = ascii ''3/20'' \<rparr>,
          \<lparr> name = ascii ''Mother'', amount = 150, percentage = 15,
            fraction = ascii ''3/20'' \<rparr>,
          \<lparr> name = numbered (ascii ''Son'') 1, amount = 100, percentage = 10,
            fraction = ascii ''1/5'' \<rparr>,
          \<lparr> name = numbered (ascii ''Son'') 2, amount = 100, percentage = 10,
            fraction = ascii ''1/5'' \<rparr>,
          \<lparr> name = ascii ''Daughter'', amount = 100, percentage = 10,
            fraction = ascii ''1/10'' \<rparr>,
          \<lparr> name = numbered (ascii ''Brother'') 1, amount = 30, percentage = 3,
            fraction = ascii ''3/50'' \<rparr>,
          \<lparr> name = numbered (ascii ''Brother'') 2, amount = 30, percentage = 3,
            fraction = ascii ''3/50'' \<rparr>,
          \<lparr> name = numbered (ascii ''Sister'') 1, amount = 40, percentage = 4,
            fraction = ascii ''1/25'' \<rparr>]"
    unfolding whole blocks
    by (simp add: singleEntry_def memberEntries_def familyForm_def estateForm_def
        everyClassResponse_def sampleLabels_def upto_small double_quotients)
  have empty: "individualHeirs sampleLabels toLowerCaseAscii divideDouble
      (Some unmatchedResponse) fullForm en = []"
  proof -
    from unmatched none have
      "husbandBlock toLowerCaseAscii (sampleLabels en) unmatchedResponse fullForm [] = []"
      "wivesBlock toLowerCaseAscii divideDouble (sampleLabels en) unmatchedResponse fullForm []
         = []"
      "fatherBlock toLowerCaseAscii (sampleLabels en) unmatchedResponse fullForm [] = []"
      "motherBlock toLowerCaseAscii (sampleLabels en) unmatchedResponse fullForm [] = []"
      "sonsBlock toLowerCaseAscii divideDouble (sampleLabels en) unmatchedResponse fullForm []
         = []"
      "daughtersBlock toLowerCaseAscii divideDouble (sampleLabels en) unmatchedResponse
         fullForm [] = []"
      "fullBrothersBlock toLowerCaseAscii divideDouble (sampleLabels en) unmatchedResponse
         fullForm [] = []"
      "fullSistersBlock toLowerCaseAscii divideDouble (sampleLabels en) unmatchedResponse
         fullForm [] = []"
      by blast+
    moreover from unmatched have
      "individualHeirs sampleLabels toLowerCaseAscii divideDouble (Some unmatchedResponse)
         fullForm en
       = husbandBlock toLowerCaseAscii (sampleLabels en) unmatchedResponse fullForm []
         @ wivesBlock toLowerCaseAscii divideDouble (sampleLabels en) unmatchedResponse
             fullForm []
         @ fatherBlock toLowerCaseAscii (sampleLabels en) unmatchedResponse fullForm []
         @ motherBlock toLowerCaseAscii (sampleLabels en) unmatchedResponse fullForm []
         @ sonsBlock toLowerCaseAscii divideDouble (sampleLabels en) unmatchedResponse
             fullForm []
         @ daughtersBlock toLowerCaseAscii divideDouble (sampleLabels en) unmatchedResponse
             fullForm []
         @ fullBrothersBlock toLowerCaseAscii divideDouble (sampleLabels en)
             unmatchedResponse fullForm []
         @ fullSistersBlock toLowerCaseAscii divideDouble (sampleLabels en)
             unmatchedResponse fullForm []"
      by blast
    ultimately show ?thesis by simp
  qed
  from family full first none list empty show ?thesis
    by blast
qed

subsection \<open>Only eight classes are listed\<close>

lemma block_ignores_paternal:
  "husbandBlock lc L res (fd\<lparr>paternalBrothersCount := a, paternalSistersCount := b\<rparr>) list
     = husbandBlock lc L res fd list"
  "wivesBlock lc dv L res (fd\<lparr>paternalBrothersCount := a, paternalSistersCount := b\<rparr>) list
     = wivesBlock lc dv L res fd list"
  "fatherBlock lc L res (fd\<lparr>paternalBrothersCount := a, paternalSistersCount := b\<rparr>) list
     = fatherBlock lc L res fd list"
  "motherBlock lc L res (fd\<lparr>paternalBrothersCount := a, paternalSistersCount := b\<rparr>) list
     = motherBlock lc L res fd list"
  "sonsBlock lc dv L res (fd\<lparr>paternalBrothersCount := a, paternalSistersCount := b\<rparr>) list
     = sonsBlock lc dv L res fd list"
  "daughtersBlock lc dv L res (fd\<lparr>paternalBrothersCount := a, paternalSistersCount := b\<rparr>) list
     = daughtersBlock lc dv L res fd list"
  "fullBrothersBlock lc dv L res (fd\<lparr>paternalBrothersCount := a, paternalSistersCount := b\<rparr>) list
     = fullBrothersBlock lc dv L res fd list"
  "fullSistersBlock lc dv L res (fd\<lparr>paternalBrothersCount := a, paternalSistersCount := b\<rparr>) list
     = fullSistersBlock lc dv L res fd list"
  by (simp_all add: block_defs Let_def split: option.split)

lemma single_names:
  "list_all (\<lambda>e. name e \<in> entryNames L) (husbandBlock lc L res fd [])"
  "list_all (\<lambda>e. name e \<in> entryNames L) (fatherBlock lc L res fd [])"
  "list_all (\<lambda>e. name e \<in> entryNames L) (motherBlock lc L res fd [])"
  by (simp_all add: block_defs entryNames_def split: option.split)

lemma loop_names:
  assumes "\<And>i. 1 \<le> i \<Longrightarrow> nm i \<in> entryNames L"
  shows "list_all (\<lambda>e. name e \<in> entryNames L) (map (loopEntry nm a p f) [1..n])"
  using assms by (simp add: list_all_iff loopEntry_def)

lemma numbered_names:
  "1 \<le> i \<Longrightarrow> numbered (wife L) i \<in> entryNames L"
  "1 \<le> i \<Longrightarrow> numbered (son L) i \<in> entryNames L"
  "1 \<le> i \<Longrightarrow> numbered (daughter L) i \<in> entryNames L"
  "1 \<le> i \<Longrightarrow> numbered (brother L) i \<in> entryNames L"
  "1 \<le> i \<Longrightarrow> numbered (sister L) i \<in> entryNames L"
  "wife L \<in> entryNames L"
  "son L \<in> entryNames L"
  "daughter L \<in> entryNames L"
  unfolding entryNames_def by blast+

lemma group_names:
  "list_all (\<lambda>e. name e \<in> entryNames L) (wivesBlock lc dv L res fd [])"
  "list_all (\<lambda>e. name e \<in> entryNames L) (sonsBlock lc dv L res fd [])"
  "list_all (\<lambda>e. name e \<in> entryNames L) (daughtersBlock lc dv L res fd [])"
  "list_all (\<lambda>e. name e \<in> entryNames L) (fullBrothersBlock lc dv L res fd [])"
  "list_all (\<lambda>e. name e \<in> entryNames L) (fullSistersBlock lc dv L res fd [])"
  by (simp_all add: block_defs pushLoop_eq Let_def loop_names numbered_names
      split: option.split)

lemma paternalResponse_matches:
  "getShare toLowerCaseAscii paternalResponse motherKeywords = Some (shares paternalResponse ! 0)"
  by (simp add: getShare_def paternalResponse_def keyword_defs ascii_def toLowerCaseAscii_def)

lemma paternal_list:
  "individualHeirs sampleLabels toLowerCaseAscii divideDouble (Some paternalResponse) paternalForm en
     = [\<lparr> name = ascii ''Mother'', amount = 200, percentage = 33,
          fraction = ascii ''1/3'' \<rparr>]"
  by (simp add: individualHeirs_def Let_def block_defs paternalResponse_matches
      paternalForm_def estateForm_def)
     (simp add: paternalResponse_def sampleLabels_def)

text \<open>C9: the list does not depend on the two paternal sibling counts of the form, and
  every entry is named by one of the eight labels (husband, wife, father, mother, son,
  daughter, brother, sister), alone or followed by a positive index. So no entry is
  made for a paternal brother or sister, whatever the counts and whatever the shares
  returned.\<close>

theorem no_entry_for_paternal_siblings:
  "individualHeirs tbl lc dv r (fd\<lparr>paternalBrothersCount := a, paternalSistersCount := b\<rparr>) l
     = individualHeirs tbl lc dv r fd l
   \<and> list_all (\<lambda>e. name e \<in> entryNames (tbl l)) (individualHeirs tbl lc dv r fd l)"
proof (cases r)
  case None
  then show ?thesis by (simp add: individualHeirs_def)
next
  case (Some res)
  have same: "individualHeirs tbl lc dv (Some res)
      (fd\<lparr>paternalBrothersCount := a, paternalSistersCount := b\<rparr>) l
     = individualHeirs tbl lc dv (Some res) fd l"
    unfolding individualHeirs_segments block_ignores_paternal ..
  have names: "list_all (\<lambda>e. name e \<in> entryNames (tbl l))
      (individualHeirs tbl lc dv (Some res) fd l)"
    unfolding individualHeirs_segments by (simp add: single_names group_names)
  from same names Some show ?thesis by simp
qed

text \<open>C9 on a form with a mother and two paternal brothers, each with a share in the
  response: only the mother is listed.\<close>

theorem no_entry_for_paternal_siblings_witness:
  "0 < paternalBrothersCount paternalForm
   \<and> individualHeirs sampleLabels toLowerCaseAscii divideDouble (Some paternalResponse)
         (paternalForm\<lparr>paternalBrothersCount := 0, paternalSistersCount := 0\<rparr>) en
       = individualHeirs sampleLabels toLowerCaseAscii divideDouble (Some paternalResponse) paternalForm en
   \<and> individualHeirs sampleLabels toLowerCaseAscii divideDouble (Some paternalResponse) paternalForm en
       = [\<lparr> name = ascii ''Mother'', amount = 200, percentage = 33,
            fraction = ascii ''1/3'' \<rparr>]
   \<and> ascii ''Mother'' \<in> entryNames (sampleLabels en)"
  using no_entry_for_paternal_siblings
    [where tbl = sampleLabels and lc = toLowerCaseAscii and dv = divideDouble and r = "Some paternalResponse"
      and fd = paternalForm and a = 0 and b = 0 and l = en]
  by (simp add: paternal_list) (simp add: paternalForm_def estateForm_def)

subsection \<open>A class without a matching share is left out\<close>

lemma individualHeirs_cong:
  assumes "husbandBlock lc (tbl l) res fd [] = husbandBlock lc (tbl l) res fd' []"
    and "wivesBlock lc dv (tbl l) res fd [] = wivesBlock lc dv (tbl l) res fd' []"
    and "fatherBlock lc (tbl l) res fd [] = fatherBlock lc (tbl l) res fd' []"
    and "motherBlock lc (tbl l) res fd [] = motherBlock lc (tbl l) res fd' []"
    and "sonsBlock lc dv (tbl l) res fd [] = sonsBlock lc dv (tbl l) res fd' []"
    and "daughtersBlock lc dv (tbl l) res fd [] = daughtersBlock lc dv (tbl l) res fd' []"
    and "fullBrothersBlock lc dv (tbl l) res fd [] = fullBrothersBlock lc dv (tbl l) res fd' []"
    and "fullSistersBlock lc dv (tbl l) res fd [] = fullSistersBlock lc dv (tbl l) res fd' []"
  shows "individualHeirs tbl lc dv (Some res) fd l = individualHeirs tbl lc dv (Some res) fd' l"
  unfolding individualHeirs_segments using assms by simp



text \<open>C10: when a class is present in the form and no heir name of the response
  contains one of its keywords, the list is the one the same form gives without that
  class: nothing is pushed for it, and the list, which is all that \<open>individualHeirs\<close>
  returns, carries no warning or error. When this is so for every class present, the
  list is empty, and the listed amounts add up to less than any positive net estate.\<close>

theorem unmatched_class_silently_omitted:
  "(hasHusband fd \<and> getShare lc res husbandKeywords = None \<longrightarrow>
      individualHeirs tbl lc dv (Some res) fd l
        = individualHeirs tbl lc dv (Some res) (fd\<lparr>hasHusband := False\<rparr>) l)
   \<and> (0 < wivesCount fd \<and> getShare lc res wivesKeywords = None \<longrightarrow>
      individualHeirs tbl lc dv (Some res) fd l
        = individualHeirs tbl lc dv (Some res) (fd\<lparr>wivesCount := 0\<rparr>) l)
   \<and> (hasFather fd \<and> getShare lc res fatherKeywords = None \<longrightarrow>
      individualHeirs tbl lc dv (Some res) fd l
        = individualHeirs tbl lc dv (Some res) (fd\<lparr>hasFather := False\<rparr>) l)
   \<and> (hasMother fd \<and> getShare lc res motherKeywords = None \<longrightarrow>
      individualHeirs tbl lc dv (Some res) fd l
        = individualHeirs tbl lc dv (Some res) (fd\<lparr>hasMother := False\<rparr>) l)
   \<and> (0 < sonsCount fd \<and> getShare lc res sonsKeywords = None \<longrightarrow>
      individualHeirs tbl lc dv (Some res) fd l
        = individualHeirs tbl lc dv (Some res) (fd\<lparr>sonsCount := 0\<rparr>) l)
   \<and> (0 < daughtersCount fd \<and> getShare lc res daughtersKeywords = None \<longrightarrow>
      individualHeirs tbl lc dv (Some res) fd l
        = individualHeirs tbl lc dv (Some res) (fd\<lparr>daughtersCount := 0\<rparr>) l)
   \<and> (0 < fullBrothersCount fd \<and> getShare lc res fullBrothersKeywords = None \<longrightarrow>
      individualHeirs tbl lc dv (Some res) fd l
        = individualHeirs tbl lc dv (Some res) (fd\<lparr>fullBrothersCount := 0\<rparr>) l)
   \<and> (0 < fullSistersCount fd \<and> getShare lc res fullSistersKeywords = None \<longrightarrow>
      individualHeirs tbl lc dv (Some res) fd l
        = individualHeirs tbl lc dv (Some res) (fd\<lparr>fullSistersCount := 0\<rparr>) l)
   \<and> ((hasHusband fd \<longrightarrow> getShare lc res husbandKeywords = None)
      \<and> (0 < wivesCount fd \<longrightarrow> getShare lc res wivesKeywords = None)
      \<and> (hasFather fd \<longrightarrow> getShare lc res fatherKeywords = None)
      \<and> (hasMother fd \<longrightarrow> getShare lc res motherKeywords = None)
      \<and> (0 < sonsCount fd \<longrightarrow> getShare lc res sonsKeywords = None)
      \<and> (0 < daughtersCount fd \<longrightarrow> getShare lc res daughtersKeywords = None)
      \<and> (0 < fullBrothersCount fd \<longrightarrow> getShare lc res fullBrothersKeywords = None)
      \<and> (0 < fullSistersCount fd \<longrightarrow> getShare lc res fullSistersKeywords = None)
      \<and> 0 < net (netEstateCalculations fd) \<longrightarrow>
        individualHeirs tbl lc dv (Some res) fd l = []
        \<and> sum_list (map HeirEntry.amount (individualHeirs tbl lc dv (Some res) fd l))
            < net (netEstateCalculations fd))"
proof -
  have husband: "individualHeirs tbl lc dv (Some res) fd l
        = individualHeirs tbl lc dv (Some res) (fd\<lparr>hasHusband := False\<rparr>) l"
    if "hasHusband fd" "getShare lc res husbandKeywords = None"
    using that
    by (intro individualHeirs_cong) (simp_all add: block_defs Let_def split: option.split)
  have wives: "individualHeirs tbl lc dv (Some res) fd l
        = individualHeirs tbl lc dv (Some res) (fd\<lparr>wivesCount := 0\<rparr>) l"
    if "0 < wivesCount fd" "getShare lc res wivesKeywords = None"
    using that
    by (intro individualHeirs_cong) (simp_all add: block_defs Let_def split: option.split)
  have father: "individualHeirs tbl lc dv (Some res) fd l
        = individualHeirs tbl lc dv (Some res) (fd\<lparr>hasFather := False\<rparr>) l"
    if "hasFather fd" "getShare lc res fatherKeywords = None"
    using that
    by (intro individualHeirs_cong) (simp_all add: block_defs Let_def split: option.split)
  have mother: "individualHeirs tbl lc dv (Some res) fd l
        = individualHeirs tbl lc dv (Some res) (fd\<lparr>hasMother := False\<rparr>) l"
    if "hasMother fd" "getShare lc res motherKeywords = None"
    using that
    by (intro individualHeirs_cong) (simp_all add: block_defs Let_def split: option.split)
  have sons: "individualHeirs tbl lc dv (Some res) fd l
        = individualHeirs tbl lc dv (Some res) (fd\<lparr>sonsCount := 0\<rparr>) l"
    if "0 < sonsCount fd" "getShare lc res sonsKeywords = None"
    using that
    by (intro individualHeirs_cong) (simp_all add: block_defs Let_def split: option.split)
  have daughters: "individualHeirs tbl lc dv (Some res) fd l
        = individualHeirs tbl lc dv (Some res) (fd\<lparr>daughtersCount := 0\<rparr>) l"
    if "0 < daughtersCount fd" "getShare lc res daughtersKeywords = None"
    using that
    by (intro individualHeirs_cong) (simp_all add: block_defs Let_def split: option.split)
  have brothers: "individualHeirs tbl lc dv (Some res) fd l
        = individualHeirs tbl lc dv (Some res) (fd\<lparr>fullBrothersCount := 0\<rparr>) l"
    if "0 < fullBrothersCount fd" "getShare lc res fullBrothersKeywords = None"
    using that
    by (intro individualHeirs_cong) (simp_all add: block_defs Let_def split: option.split)
  have sisters: "individualHeirs tbl lc dv (Some res) fd l
        = individualHeirs tbl lc dv (Some res) (fd\<lparr>fullSistersCount := 0\<rparr>) l"
    if "0 < fullSistersCount fd" "getShare lc res fullSistersKeywords = None"
    using that
    by (intro individualHeirs_cong) (simp_all add: block_defs Let_def split: option.split)
  have empty: "individualHeirs tbl lc dv (Some res) fd l = []"
    if "hasHusband fd \<longrightarrow> getShare lc res husbandKeywords = None"
      "0 < wivesCount fd \<longrightarrow> getShare lc res wivesKeywords = None"
      "hasFather fd \<longrightarrow> getShare lc res fatherKeywords = None"
      "hasMother fd \<longrightarrow> getShare lc res motherKeywords = None"
      "0 < sonsCount fd \<longrightarrow> getShare lc res sonsKeywords = None"
      "0 < daughtersCount fd \<longrightarrow> getShare lc res daughtersKeywords = None"
      "0 < fullBrothersCount fd \<longrightarrow> getShare lc res fullBrothersKeywords = None"
      "0 < fullSistersCount fd \<longrightarrow> getShare lc res fullSistersKeywords = None"
    unfolding individualHeirs_segments using that by (simp add: block_unmatched)
  show ?thesis
    using husband wives father mother sons daughters brothers sisters empty
    by (intro conjI impI) simp_all
qed

text \<open>C10 on a form with a member in every class and a response whose only share,
  holding the whole estate of 1000, is named \<open>Paternal Brother\<close>: nothing is listed.\<close>

theorem unmatched_class_silently_omitted_witness:
  "(hasHusband fullForm \<and> 0 < wivesCount fullForm \<and> hasFather fullForm \<and> hasMother fullForm
      \<and> 0 < sonsCount fullForm \<and> 0 < daughtersCount fullForm
      \<and> 0 < fullBrothersCount fullForm \<and> 0 < fullSistersCount fullForm)
   \<and> (getShare toLowerCaseAscii unmatchedResponse husbandKeywords = None
      \<and> getShare toLowerCaseAscii unmatchedResponse wivesKeywords = None
      \<and> getShare toLowerCaseAscii unmatchedResponse fatherKeywords = None
      \<and> getShare toLowerCaseAscii unmatchedResponse motherKeywords = None
      \<and> getShare toLowerCaseAscii unmatchedResponse sonsKeywords = None
      \<and> getShare toLowerCaseAscii unmatchedResponse daughtersKeywords = None
      \<and> getShare toLowerCaseAscii unmatchedResponse fullBrothersKeywords = None
      \<and> getShare toLowerCaseAscii unmatchedResponse fullSistersKeywords = None)
   \<and> net (netEstateCalculations fullForm) = 1000
   \<and> individualHeirs sampleLabels toLowerCaseAscii divideDouble (Some unmatchedResponse) fullForm en = []
   \<and> sum_list (map HeirEntry.amount
         (individualHeirs sampleLabels toLowerCaseAscii divideDouble (Some unmatchedResponse) fullForm en))
       < net (netEstateCalculations fullForm)
   \<and> individualHeirs sampleLabels toLowerCaseAscii divideDouble (Some unmatchedResponse) fullForm en
       = individualHeirs sampleLabels toLowerCaseAscii divideDouble (Some unmatchedResponse)
           (fullForm\<lparr>sonsCount := 0\<rparr>) en"
proof -
  have present: "hasHusband fullForm" "0 < wivesCount fullForm" "hasFather fullForm"
    "hasMother fullForm" "0 < sonsCount fullForm" "0 < daughtersCount fullForm"
    "0 < fullBrothersCount fullForm" "0 < fullSistersCount fullForm"
    by (simp_all add: fullForm_def estateForm_def)
  have net: "net (netEstateCalculations fullForm) = 1000"
    by (simp add: netEstateCalculations_fields fullForm_def estateForm_def)
  have pos: "0 < net (netEstateCalculations fullForm)"
    by (simp add: net)
  note omitted = unmatched_class_silently_omitted
      [where fd = fullForm and lc = toLowerCaseAscii and dv = divideDouble and res = unmatchedResponse
        and tbl = sampleLabels and l = en]
  from omitted present pos unmatchedResponse_no_match
  have empty: "individualHeirs sampleLabels toLowerCaseAscii divideDouble (Some unmatchedResponse) fullForm en
      = []"
    and less: "sum_list (map HeirEntry.amount
         (individualHeirs sampleLabels toLowerCaseAscii divideDouble (Some unmatchedResponse) fullForm en))
       < net (netEstateCalculations fullForm)"
    and sons: "individualHeirs sampleLabels toLowerCaseAscii divideDouble (Some unmatchedResponse) fullForm en
       = individualHeirs sampleLabels toLowerCaseAscii divideDouble (Some unmatchedResponse)
           (fullForm\<lparr>sonsCount := 0\<rparr>) en"
    by blast+
  from present unmatchedResponse_no_match net empty less sons show ?thesis
    by blast
qed

section \<open>Properties of the request\<close>

text \<open>C6, as stated, fails: what \<open>handleCalculate\<close> stores depends on the outcome of the
  external call. From the same state, hence the same form and language, two outcomes of
  the call leave two different results.\<close>

theorem handleCalculate_depends_on_external_call:
  "results (snd (handleCalculate serviceA startState)) = Some paternalResponse
   \<and> results (snd (handleCalculate serviceB startState)) = Some unmatchedResponse
   \<and> handleCalculate serviceA startState \<noteq> handleCalculate serviceB startState"
proof -
  have a: "results (snd (handleCalculate serviceA startState)) = Some paternalResponse"
    by (simp add: handleCalculate_def Let_def serviceA_def)
  have b: "results (snd (handleCalculate serviceB startState)) = Some unmatchedResponse"
    by (simp add: handleCalculate_def Let_def serviceB_def)
  have differ: "paternalResponse \<noteq> unmatchedResponse"
    by (simp add: paternalResponse_def unmatchedResponse_def)
  have "handleCalculate serviceA startState \<noteq> handleCalculate serviceB startState"
  proof
    assume "handleCalculate serviceA startState = handleCalculate serviceB startState"
    then have "results (snd (handleCalculate serviceA startState))
        = results (snd (handleCalculate serviceB startState))"
      by simp
    with a b differ show False by simp
  qed
  with a b show ?thesis by simp
qed

text \<open>C6, amended: the state after \<open>handleCalculate\<close> is determined by the state before
  and the outcome of the external call at the form and the language of that state. If
  the call returns a response, the response is stored as it is, the view switches to
  the results and loading ends; if the call fails, an alert is raised, results and view
  stay as they were and loading ends.\<close>

theorem handleCalculate_follows_external_call:
  "(calculateInheritance (formData st) (lang st) = calculateInheritance' (formData st) (lang st)
      \<longrightarrow> handleCalculate calculateInheritance st = handleCalculate calculateInheritance' st)
   \<and> (calculateInheritance (formData st) (lang st) = Inr res
      \<longrightarrow> handleCalculate calculateInheritance st
          = (None, st\<lparr> loading := False, results := Some res, view := ViewResults \<rparr>))
   \<and> (calculateInheritance (formData st) (lang st) = Inl err
      \<longrightarrow> handleCalculate calculateInheritance st = (Some alertMessage, st\<lparr> loading := False \<rparr>))"
  by (simp add: handleCalculate_def Let_def)

text \<open>The amended C6 from the start state: a service that answers, a second one that
  agrees with it on English requests, and one that fails.\<close>

theorem handleCalculate_follows_external_call_witness:
  "serviceA (formData startState) (lang startState)
     = serviceEnglishOnly (formData startState) (lang startState)
   \<and> handleCalculate serviceA startState = handleCalculate serviceEnglishOnly startState
   \<and> serviceA (formData startState) (lang startState) = Inr paternalResponse
   \<and> handleCalculate serviceA startState
       = (None, startState\<lparr> loading := False, results := Some paternalResponse,
                  view := ViewResults \<rparr>)
   \<and> serviceDown (formData startState) (lang startState) = Inl ()
   \<and> handleCalculate serviceDown startState
       = (Some alertMessage, startState\<lparr> loading := False \<rparr>)"
proof -
  have same: "serviceA (formData startState) (lang startState)
     = serviceEnglishOnly (formData startState) (lang startState)"
    by (simp add: serviceA_def serviceEnglishOnly_def startState_def)
  have up: "serviceA (formData startState) (lang startState) = Inr paternalResponse"
    by (simp add: serviceA_def)
  have down: "serviceDown (formData startState) (lang startState) = Inl ()"
    by (simp add: serviceDown_def)
  from same up down
    handleCalculate_follows_external_call
      [where calculateInheritance = serviceA and calculateInheritance' = serviceEnglishOnly
        and st = startState and res = paternalResponse and err = "()"]
    handleCalculate_follows_external_call
      [where calculateInheritance = serviceDown and calculateInheritance' = serviceDown
        and st = startState and res = paternalResponse and err = "()"]
  show ?thesis
    by blast
qed

end
